theory Spec2Isabelle
  imports Main "HOL-Library.AList" "HOL-Library.Char_ord" "HOL-Library.List_Lexorder"
begin

section \<open>The resthttp client: a shallow embedding of resthttp.go\<close>

text \<open>
  Go strings are byte sequences; they are modelled as \<open>string\<close> (a list of 8-bit
  characters). A Go map is modelled as an association list: the list order stands for the
  order in which one run of \<open>range\<close> visits the entries, the lookup is \<open>map_of\<close>.
  A nil map is \<open>None\<close>.
\<close>

subsection \<open>Standard-library string functions used by the client\<close>

text \<open>\<open>strings.TrimLeft\<close>, \<open>strings.TrimRight\<close> and \<open>strings.Trim\<close> with an ASCII cutset.\<close>

definition strings_TrimLeft :: "string \<Rightarrow> string \<Rightarrow> string" where
  "strings_TrimLeft s cutset = dropWhile (\<lambda>c. c \<in> set cutset) s"

definition strings_TrimRight :: "string \<Rightarrow> string \<Rightarrow> string" where
  "strings_TrimRight s cutset = rev (dropWhile (\<lambda>c. c \<in> set cutset) (rev s))"

definition strings_Trim :: "string \<Rightarrow> string \<Rightarrow> string" where
  "strings_Trim s cutset = strings_TrimRight (strings_TrimLeft s cutset) cutset"

text \<open>\<open>strings.Join\<close>.\<close>

fun strings_Join :: "string list \<Rightarrow> string \<Rightarrow> string" where
  "strings_Join [] sep = []"
| "strings_Join [x] sep = x"
| "strings_Join (x # y # ys) sep = x @ sep @ strings_Join (y # ys) sep"

text \<open>\<open>strings.ReplaceAll\<close> for a one-byte pattern and a one-byte replacement.\<close>

definition strings_ReplaceAll1 :: "string \<Rightarrow> char \<Rightarrow> char \<Rightarrow> string" where
  "strings_ReplaceAll1 s old new = map (\<lambda>c. if c = old then new else c) s"

text \<open>\<open>strings.Split\<close> for a one-byte separator: the result is never empty.\<close>

fun strings_Split1 :: "string \<Rightarrow> char \<Rightarrow> string list" where
  "strings_Split1 [] sep = [[]]"
| "strings_Split1 (c # cs) sep =
     (if c = sep then [] # strings_Split1 cs sep
      else (case strings_Split1 cs sep of
              [] \<Rightarrow> [[c]]
            | p # ps \<Rightarrow> (c # p) # ps))"

text \<open>\<open>filepath.Base\<close> on a system whose path separator is the slash.\<close>

definition filepath_Base :: "string \<Rightarrow> string" where
  "filepath_Base path =
     (if path = [] then ''.''
      else
        (let p = strings_TrimRight path ''/'';
             p = last (strings_Split1 p (CHR ''/''))
         in if p = [] then ''/'' else p))"

subsection \<open>Character classes\<close>

definition is_lower :: "char \<Rightarrow> bool" where
  "is_lower c = (CHR ''a'' \<le> c \<and> c \<le> CHR ''z'')"

definition is_upper :: "char \<Rightarrow> bool" where
  "is_upper c = (CHR ''A'' \<le> c \<and> c \<le> CHR ''Z'')"

definition is_digit :: "char \<Rightarrow> bool" where
  "is_digit c = (CHR ''0'' \<le> c \<and> c \<le> CHR ''9'')"

definition is_alnum :: "char \<Rightarrow> bool" where
  "is_alnum c = (is_lower c \<or> is_upper c \<or> is_digit c)"

subsection \<open>\<open>net/url\<close>: query escaping and \<open>Values.Encode\<close>\<close>

type_synonym Values = "(string \<times> string list) list"

definition Values_lookup :: "Values \<Rightarrow> string \<Rightarrow> string list" where
  "Values_lookup v k = (case map_of v k of None \<Rightarrow> [] | Some vs \<Rightarrow> vs)"

text \<open>\<open>shouldEscape(c, encodeQueryComponent)\<close>: everything but the unreserved
  characters is escaped.\<close>

definition shouldEscape :: "char \<Rightarrow> bool" where
  "shouldEscape c = (if is_alnum c then False else if c \<in> set ''-_.~'' then False else True)"

definition upperhex :: string where
  "upperhex = ''0123456789ABCDEF''"

definition escape_byte :: "char \<Rightarrow> string" where
  "escape_byte c =
     (if c = CHR '' '' then ''+''
      else if shouldEscape c
        then [CHR ''%'', upperhex ! ((of_char c :: nat) div 16), upperhex ! ((of_char c :: nat) mod 16)]
      else [c])"

definition QueryEscape :: "string \<Rightarrow> string" where
  "QueryEscape s = concat (map escape_byte s)"

text \<open>The inner loop of \<open>Values.Encode\<close> over the values of one key; \<open>buf\<close> is the
  string builder.\<close>

fun Encode_values :: "string \<Rightarrow> string list \<Rightarrow> string \<Rightarrow> string" where
  "Encode_values keyEscaped [] buf = buf"
| "Encode_values keyEscaped (v # vs) buf =
     Encode_values keyEscaped vs
       ((if buf \<noteq> [] then buf @ ''&'' else buf) @ keyEscaped @ ''='' @ QueryEscape v)"

text \<open>The outer loop over the sorted keys.\<close>

fun Encode_keys :: "Values \<Rightarrow> string list \<Rightarrow> string \<Rightarrow> string" where
  "Encode_keys v [] buf = buf"
| "Encode_keys v (k # ks) buf =
     Encode_keys v ks (Encode_values (QueryEscape k) (Values_lookup v k) buf)"

text \<open>The keys of the map, each once, in ascending byte order (\<open>slices.Sort\<close>).\<close>

definition sorted_keys :: "Values \<Rightarrow> string list" where
  "sorted_keys v = sort (remdups (map fst v))"

definition Values_Encode :: "Values option \<Rightarrow> string" where
  "Values_Encode q =
     (case q of
        None \<Rightarrow> []
      | Some v \<Rightarrow> if v = [] then [] else Encode_keys v (sorted_keys v) [])"

subsection \<open>\<open>encoding/base64\<close>: the standard encoding with padding\<close>

definition encodeStd :: string where
  "encodeStd = ''ABCDEFGHIJKLMNOPQRSTUVWXYZabcdefghijklmnopqrstuvwxyz0123456789+/''"

fun base64_groups :: "nat list \<Rightarrow> string" where
  "base64_groups (a # b # c # rest) =
     (let v = a * 65536 + b * 256 + c
      in [encodeStd ! (v div 262144), encodeStd ! (v div 4096 mod 64),
          encodeStd ! (v div 64 mod 64), encodeStd ! (v mod 64)] @ base64_groups rest)"
| "base64_groups [a, b] =
     (let v = a * 65536 + b * 256
      in [encodeStd ! (v div 262144), encodeStd ! (v div 4096 mod 64),
          encodeStd ! (v div 64 mod 64), CHR ''=''])"
| "base64_groups [a] =
     (let v = a * 65536
      in [encodeStd ! (v div 262144), encodeStd ! (v div 4096 mod 64), CHR ''='', CHR ''=''])"
| "base64_groups [] = []"

definition base64_EncodeToString :: "string \<Rightarrow> string" where
  "base64_EncodeToString s = base64_groups (map of_char s)"

subsection \<open>\<open>net/http\<close>: headers\<close>

text \<open>An \<open>http.Header\<close> maps a canonical header name to its list of values.\<close>

type_synonym Header = "(string \<times> string list) list"

definition validHeaderFieldByte :: "char \<Rightarrow> bool" where
  "validHeaderFieldByte c = (is_alnum c \<or> c \<in> set (CHR 0x27 # ''!#$%&*+-.^_`|~''))"

definition ascii_toUpper :: "char \<Rightarrow> char" where
  "ascii_toUpper c = char_of ((of_char c :: nat) - 32)"

definition ascii_toLower :: "char \<Rightarrow> char" where
  "ascii_toLower c = char_of ((of_char c :: nat) + 32)"

text \<open>The canonicalising pass of \<open>textproto.CanonicalMIMEHeaderKey\<close>: the first
  letter and every letter after a dash in upper case, the others in lower case.\<close>

fun canonical_pass :: "bool \<Rightarrow> string \<Rightarrow> string" where
  "canonical_pass upper [] = []"
| "canonical_pass upper (c # cs) =
     (let c' = (if upper \<and> is_lower c then ascii_toUpper c
                else if \<not> upper \<and> is_upper c then ascii_toLower c
                else c)
      in c' # canonical_pass (c' = CHR ''-'') cs)"

text \<open>A key with a byte that is no header-field byte is left as it is.\<close>

definition CanonicalMIMEHeaderKey :: "string \<Rightarrow> string" where
  "CanonicalMIMEHeaderKey s = (if list_all validHeaderFieldByte s then canonical_pass True s else s)"

definition Header_lookup :: "Header \<Rightarrow> string \<Rightarrow> string list" where
  "Header_lookup h k = (case map_of h k of None \<Rightarrow> [] | Some vs \<Rightarrow> vs)"

text \<open>\<open>Header.Values\<close>, \<open>Header.Get\<close>, \<open>Header.Set\<close> and \<open>Header.Add\<close>.\<close>

definition Header_Values :: "Header \<Rightarrow> string \<Rightarrow> string list" where
  "Header_Values h key = Header_lookup h (CanonicalMIMEHeaderKey key)"

definition Header_Get :: "Header \<Rightarrow> string \<Rightarrow> string" where
  "Header_Get h key = (case Header_Values h key of [] \<Rightarrow> [] | v # _ \<Rightarrow> v)"

definition Header_Set :: "string \<Rightarrow> string \<Rightarrow> Header \<Rightarrow> Header" where
  "Header_Set key v h = AList.update (CanonicalMIMEHeaderKey key) [v] h"

definition Header_Add :: "string \<Rightarrow> string \<Rightarrow> Header \<Rightarrow> Header" where
  "Header_Add key v h =
     (let k = CanonicalMIMEHeaderKey key in AList.update k (Header_lookup h k @ [v]) h)"

subsection \<open>The client configuration\<close>

record RestHttp =
  BaseURL :: string
  BaseHeaders :: Header
  User :: string
  Password :: string
  VerifySSL :: bool
  DebugPrint :: bool
  Timeout :: int

definition NewRestHttp :: "string \<Rightarrow> string \<Rightarrow> string \<Rightarrow> bool \<Rightarrow> bool \<Rightarrow> int \<Rightarrow> RestHttp" where
  "NewRestHttp baseURL user password sslVerify debugPrint timeout =
     (let baseURL = strings_TrimRight baseURL ''/'';
          headers = Header_Set ''Accept'' ''application/json'' [];
          headers =
            (if user \<noteq> [] \<and> password \<noteq> []
             then (let auth = user @ '':'' @ password;
                       authHeader = ''Basic '' @ base64_EncodeToString auth
                   in Header_Set ''Authorization'' authHeader headers)
             else headers)
      in \<lparr> BaseURL = baseURL, BaseHeaders = headers, User = user, Password = password,
           VerifySSL = sslVerify, DebugPrint = debugPrint, Timeout = timeout \<rparr>)"

definition MakeURL :: "RestHttp \<Rightarrow> string \<Rightarrow> string \<Rightarrow> Values option \<Rightarrow> string" where
  "MakeURL r container resource queryItems =
     (let parts = [BaseURL r];
          parts = (if container \<noteq> [] then parts @ [strings_Trim container ''/''] else parts);
          parts = (if resource \<noteq> [] then parts @ [resource] else parts @ [[]]);
          urlStr = strings_Join parts ''/''
      in case queryItems of
           None \<Rightarrow> urlStr
         | Some q \<Rightarrow> urlStr @ ''?'' @ Values_Encode (Some q))"

subsection \<open>Errors\<close>

record RestHttpError =
  HttpStatus :: int
  HttpReason :: string
  Msg :: string
  Code :: string

definition NewRestHttpError :: "int \<Rightarrow> string \<Rightarrow> string \<Rightarrow> string \<Rightarrow> RestHttpError" where
  "NewRestHttpError httpStatus httpReason msg code =
     \<lparr> HttpStatus = httpStatus, HttpReason = httpReason, Msg = msg, Code = code \<rparr>"

text \<open>The values of Go's \<open>error\<close> interface that reach the client: its own
  \<open>*RestHttpError\<close>, an operating-system error for which \<open>os.IsNotExist\<close> holds, and any
  other error of the libraries or of \<open>fmt.Errorf\<close>, each of the last two with its message.\<close>

datatype error = E_RestHttp RestHttpError | E_NotExist string | E_Other string

definition os_IsNotExist :: "error option \<Rightarrow> bool" where
  "os_IsNotExist err = (case err of Some (E_NotExist _) \<Rightarrow> True | _ \<Rightarrow> False)"

text \<open>Decimal printing of an integer (\<open>%d\<close>).\<close>

fun nat_digits :: "nat \<Rightarrow> string" where
  "nat_digits n =
     (if n < 10 then [char_of (48 + n)] else nat_digits (n div 10) @ [char_of (48 + n mod 10)])"

definition fmt_d :: "int \<Rightarrow> string" where
  "fmt_d i = (if i < 0 then ''-'' @ nat_digits (nat (- i)) else nat_digits (nat i))"

definition RestHttpError_Error :: "RestHttpError \<Rightarrow> string" where
  "RestHttpError_Error e =
     (if Msg e \<noteq> [] then fmt_d (HttpStatus e) @ '' '' @ HttpReason e @ '': '' @ Msg e
      else fmt_d (HttpStatus e) @ '' '' @ HttpReason e)"

definition Error :: "error \<Rightarrow> string" where
  "Error e = (case e of E_RestHttp h \<Rightarrow> RestHttpError_Error h | E_NotExist m \<Rightarrow> m | E_Other m \<Rightarrow> m)"

text \<open>\<open>fmt.Errorf(prefix + "%s", err)\<close>.\<close>

definition fmt_Errorf_s :: "string \<Rightarrow> error \<Rightarrow> error" where
  "fmt_Errorf_s prefix err = E_Other (prefix @ Error err)"

subsection \<open>Requests, responses and the multipart writer\<close>

datatype Part = FormFile string string string | FormField string string

record Writer =
  boundary :: string
  parts :: "Part list"

datatype Body = NoBody | StringBody string | MultipartBody Writer

record Request =
  Method :: string
  URL :: string
  ReqHeader :: Header
  ReqBody :: Body

text \<open>A response: the status code, the status line text, and what reading the body to its
  end gives (the bytes, and the error that ended the reading if one did).\<close>

record Response =
  StatusCode :: int
  Status :: string
  RespBody :: string
  RespBodyErr :: "error option"

record Client =
  ClientTimeout :: int
  InsecureSkipVerify :: bool

text \<open>An open \<open>*os.File\<close>: its descriptor, its name, and what reading it to its end gives.\<close>

record File =
  fd :: nat
  fname :: string
  fdata :: string
  fread_err :: "error option"

subsection \<open>The world outside the client\<close>

text \<open>
  What the libraries and the operating system answer is a parameter of every operation:
  whether \<open>http.NewRequest\<close> accepts a method and URL, what the transport returns for a
  request, what \<open>os.Stat\<close>, \<open>os.Open\<close> and \<open>os.Create\<close> return for a path, after how many
  bytes a write to a created file fails, the boundary the multipart writer draws, and whether
  the writer fails to start a part or to close.
\<close>

record Env =
  NewRequestErr :: "string \<Rightarrow> string \<Rightarrow> error option"
  RoundTrip :: "Client \<Rightarrow> Request \<Rightarrow> error + Response"
  StatErr :: "string \<Rightarrow> error option"
  OpenFile :: "string \<Rightarrow> error + (string \<times> error option)"
  CreateErr :: "string \<Rightarrow> error option"
  WriteErr :: "string \<Rightarrow> (nat \<times> error) option"
  NewBoundary :: string
  FormFileErr :: "string \<Rightarrow> string \<Rightarrow> error option"
  WriterCloseErr :: "error option"

text \<open>
  The state the operations change: the contents of the files, the descriptors that are open,
  the next descriptor, and the requests handed to the transport, oldest first. What the
  debug flag prints to standard output is not part of the state.
\<close>

record World =
  files :: "string \<Rightarrow> string option"
  open_fds :: "nat list"
  next_fd :: nat
  sent :: "Request list"

definition os_Open :: "Env \<Rightarrow> string \<Rightarrow> World \<Rightarrow> (error + File) \<times> World" where
  "os_Open E path w =
     (case OpenFile E path of
        Inl err \<Rightarrow> (Inl err, w)
      | Inr (d, rerr) \<Rightarrow>
          (Inr \<lparr> fd = next_fd w, fname = path, fdata = d, fread_err = rerr \<rparr>,
           w\<lparr> open_fds := open_fds w @ [next_fd w], next_fd := Suc (next_fd w) \<rparr>))"

text \<open>\<open>os.Create\<close> truncates the file it opens.\<close>

definition os_Create :: "Env \<Rightarrow> string \<Rightarrow> World \<Rightarrow> (error + nat) \<times> World" where
  "os_Create E path w =
     (case CreateErr E path of
        Some err \<Rightarrow> (Inl err, w)
      | None \<Rightarrow>
          (Inr (next_fd w),
           w\<lparr> files := (files w)(path \<mapsto> []), open_fds := open_fds w @ [next_fd w],
              next_fd := Suc (next_fd w) \<rparr>))"

definition File_Close :: "nat \<Rightarrow> World \<Rightarrow> World" where
  "File_Close d w = w\<lparr> open_fds := removeAll d (open_fds w) \<rparr>"

definition fileExists :: "Env \<Rightarrow> string \<Rightarrow> bool" where
  "fileExists E path = (\<not> os_IsNotExist (StatErr E path))"

text \<open>\<open>io.Copy(file, resp.Body)\<close> into the file created at \<open>path\<close>: the bytes written
  stay in the file when the copy fails.\<close>

definition io_Copy_to_file :: "Env \<Rightarrow> string \<Rightarrow> Response \<Rightarrow> World \<Rightarrow> error option \<times> World" where
  "io_Copy_to_file E path resp w =
     (case WriteErr E path of
        Some (n, err) \<Rightarrow>
          if n < length (RespBody resp)
          then (Some err, w\<lparr> files := (files w)(path \<mapsto> take n (RespBody resp)) \<rparr>)
          else (RespBodyErr resp, w\<lparr> files := (files w)(path \<mapsto> RespBody resp) \<rparr>)
      | None \<Rightarrow> (RespBodyErr resp, w\<lparr> files := (files w)(path \<mapsto> RespBody resp) \<rparr>))"

definition ioutil_ReadAll :: "Response \<Rightarrow> error + string" where
  "ioutil_ReadAll resp = (case RespBodyErr resp of Some err \<Rightarrow> Inl err | None \<Rightarrow> Inr (RespBody resp))"

definition multipart_NewWriter :: "Env \<Rightarrow> Writer" where
  "multipart_NewWriter E = \<lparr> boundary = NewBoundary E, parts = [] \<rparr>"

definition CreateFormFile :: "Env \<Rightarrow> Writer \<Rightarrow> string \<Rightarrow> string \<Rightarrow> error + Writer" where
  "CreateFormFile E wr fieldname filename =
     (case FormFileErr E fieldname filename of
        Some err \<Rightarrow> Inl err
      | None \<Rightarrow> Inr (wr\<lparr> parts := parts wr @ [FormFile fieldname filename []] \<rparr>))"

text \<open>Writing into the part that was started last.\<close>

fun Part_write :: "Part list \<Rightarrow> string \<Rightarrow> Part list" where
  "Part_write [] d = []"
| "Part_write [FormFile f n c] d = [FormFile f n (c @ d)]"
| "Part_write [FormField k v] d = [FormField k (v @ d)]"
| "Part_write (p # q # ps) d = p # Part_write (q # ps) d"

text \<open>\<open>io.Copy(part, file)\<close>.\<close>

definition io_Copy_to_part :: "Writer \<Rightarrow> File \<Rightarrow> error + Writer" where
  "io_Copy_to_part wr file =
     (case fread_err file of
        Some err \<Rightarrow> Inl err
      | None \<Rightarrow> Inr (wr\<lparr> parts := Part_write (parts wr) (fdata file) \<rparr>))"

definition WriteField :: "Writer \<Rightarrow> string \<Rightarrow> string \<Rightarrow> Writer" where
  "WriteField wr key v = wr\<lparr> parts := parts wr @ [FormField key v] \<rparr>"

text \<open>The boundary is quoted when it holds one of the characters \<open>()<>@,;:\"/[]?=\<close> or a
  space.\<close>

definition FormDataContentType :: "Writer \<Rightarrow> string" where
  "FormDataContentType wr =
     (let b = boundary wr;
          b = (if list_ex (\<lambda>c. c \<in> set (CHR 0x22 # CHR 0x5C # ''()<>@,;:/[]?= '')) b
               then [CHR 0x22] @ b @ [CHR 0x22] else b)
      in ''multipart/form-data; boundary='' @ b)"

definition http_NewRequest :: "Env \<Rightarrow> string \<Rightarrow> string \<Rightarrow> Body \<Rightarrow> error + Request" where
  "http_NewRequest E method url body =
     (case NewRequestErr E method url of
        Some err \<Rightarrow> Inl err
      | None \<Rightarrow> Inr \<lparr> Method = method, URL = url, ReqHeader = [], ReqBody = body \<rparr>)"

definition createHttpClient :: "RestHttp \<Rightarrow> Client" where
  "createHttpClient r = \<lparr> ClientTimeout = Timeout r, InsecureSkipVerify = (\<not> VerifySSL r) \<rparr>"

definition client_Do :: "Env \<Rightarrow> Client \<Rightarrow> Request \<Rightarrow> World \<Rightarrow> (error + Response) \<times> World" where
  "client_Do E c req w = (RoundTrip E c req, w\<lparr> sent := sent w @ [req] \<rparr>)"

subsection \<open>Header assembly\<close>

fun setHeaders_values :: "string \<Rightarrow> string list \<Rightarrow> Header \<Rightarrow> Header" where
  "setHeaders_values key [] h = h"
| "setHeaders_values key (v # vs) h = setHeaders_values key vs (Header_Add key v h)"

fun setHeaders_entries :: "Header \<Rightarrow> Header \<Rightarrow> Header" where
  "setHeaders_entries [] h = h"
| "setHeaders_entries ((key, vs) # es) h = setHeaders_entries es (setHeaders_values key vs h)"

definition setHeaders :: "RestHttp \<Rightarrow> Request \<Rightarrow> Request" where
  "setHeaders r req = req\<lparr> ReqHeader := setHeaders_entries (BaseHeaders r) (ReqHeader req) \<rparr>"

subsection \<open>The verb methods\<close>

definition HeadRequest :: "Env \<Rightarrow> RestHttp \<Rightarrow> string \<Rightarrow> string \<Rightarrow> World \<Rightarrow> (error + int) \<times> World" where
  "HeadRequest E r container resource w =
     (let url = MakeURL r container resource None
      in case http_NewRequest E ''HEAD'' url NoBody of
           Inl err \<Rightarrow> (Inl err, w)
         | Inr req \<Rightarrow>
             (let req = setHeaders r req;
                  client = createHttpClient r
              in case client_Do E client req w of
                   (Inl err, w') \<Rightarrow> (Inl err, w')
                 | (Inr resp, w') \<Rightarrow> (Inr (StatusCode resp), w')))"

definition GetRequest ::
  "Env \<Rightarrow> RestHttp \<Rightarrow> string \<Rightarrow> string \<Rightarrow> Values option \<Rightarrow> string \<Rightarrow> bool \<Rightarrow> World
    \<Rightarrow> (error + string) \<times> World" where
  "GetRequest E r container resource queryItems accept toLower w =
     (let url = MakeURL r container resource queryItems
      in case http_NewRequest E ''GET'' url NoBody of
           Inl err \<Rightarrow> (Inl err, w)
         | Inr req \<Rightarrow>
             (let req = (if accept \<noteq> []
                         then req\<lparr> ReqHeader := Header_Set ''Accept'' accept (ReqHeader req) \<rparr>
                         else req);
                  req = setHeaders r req;
                  client = createHttpClient r
              in case client_Do E client req w of
                   (Inl err, w') \<Rightarrow> (Inl err, w')
                 | (Inr resp, w') \<Rightarrow>
                     (case ioutil_ReadAll resp of
                        Inl err \<Rightarrow> (Inl err, w')
                      | Inr body \<Rightarrow> (Inr body, w'))))"

definition PostRequest ::
  "Env \<Rightarrow> RestHttp \<Rightarrow> string \<Rightarrow> string \<Rightarrow> Values option \<Rightarrow> string \<Rightarrow> World
    \<Rightarrow> (error + string) \<times> World" where
  "PostRequest E r container resource params accept w =
     (let url = MakeURL r container resource None
      in case http_NewRequest E ''POST'' url (StringBody (Values_Encode params)) of
           Inl err \<Rightarrow> (Inl err, w)
         | Inr req \<Rightarrow>
             (let req = req\<lparr> ReqHeader :=
                          Header_Set ''Content-Type'' ''application/x-www-form-urlencoded''
                            (ReqHeader req) \<rparr>;
                  req = (if accept \<noteq> []
                         then req\<lparr> ReqHeader := Header_Set ''Accept'' accept (ReqHeader req) \<rparr>
                         else req);
                  req = setHeaders r req;
                  client = createHttpClient r
              in case client_Do E client req w of
                   (Inl err, w') \<Rightarrow> (Inl err, w')
                 | (Inr resp, w') \<Rightarrow>
                     (case ioutil_ReadAll resp of
                        Inl err \<Rightarrow> (Inl err, w')
                      | Inr body \<Rightarrow> (Inr body, w'))))"

definition PutRequest ::
  "Env \<Rightarrow> RestHttp \<Rightarrow> string \<Rightarrow> string \<Rightarrow> Values option \<Rightarrow> string \<Rightarrow> World
    \<Rightarrow> (error + string) \<times> World" where
  "PutRequest E r container resource params accept w =
     (let url = MakeURL r container resource None
      in case http_NewRequest E ''PUT'' url (StringBody (Values_Encode params)) of
           Inl err \<Rightarrow> (Inl err, w)
         | Inr req \<Rightarrow>
             (let req = req\<lparr> ReqHeader :=
                          Header_Set ''Content-Type'' ''application/x-www-form-urlencoded''
                            (ReqHeader req) \<rparr>;
                  req = (if accept \<noteq> []
                         then req\<lparr> ReqHeader := Header_Set ''Accept'' accept (ReqHeader req) \<rparr>
                         else req);
                  req = setHeaders r req;
                  client = createHttpClient r
              in case client_Do E client req w of
                   (Inl err, w') \<Rightarrow> (Inl err, w')
                 | (Inr resp, w') \<Rightarrow>
                     (case ioutil_ReadAll resp of
                        Inl err \<Rightarrow> (Inl err, w')
                      | Inr body \<Rightarrow> (Inr body, w'))))"

definition DeleteRequest ::
  "Env \<Rightarrow> RestHttp \<Rightarrow> string \<Rightarrow> string \<Rightarrow> Values option \<Rightarrow> string \<Rightarrow> World
    \<Rightarrow> (error + string) \<times> World" where
  "DeleteRequest E r container resource queryItems accept w =
     (let url = MakeURL r container resource queryItems
      in case http_NewRequest E ''DELETE'' url NoBody of
           Inl err \<Rightarrow> (Inl err, w)
         | Inr req \<Rightarrow>
             (let req = (if accept \<noteq> []
                         then req\<lparr> ReqHeader := Header_Set ''Accept'' accept (ReqHeader req) \<rparr>
                         else req);
                  req = setHeaders r req;
                  client = createHttpClient r
              in case client_Do E client req w of
                   (Inl err, w') \<Rightarrow> (Inl err, w')
                 | (Inr resp, w') \<Rightarrow>
                     (case ioutil_ReadAll resp of
                        Inl err \<Rightarrow> (Inl err, w')
                      | Inr body \<Rightarrow> (Inr body, w'))))"

subsection \<open>File download\<close>

text \<open>The header set \<open>headers\<close> that receives the explicit accept value is a clone of the
  defaults and is not attached to the request. The created file is closed on every return
  that follows its creation (\<open>defer file.Close()\<close>).\<close>

definition DownloadFile ::
  "Env \<Rightarrow> RestHttp \<Rightarrow> string \<Rightarrow> string \<Rightarrow> string \<Rightarrow> string \<Rightarrow> Values option \<Rightarrow> World
    \<Rightarrow> error option \<times> World" where
  "DownloadFile E r container resource savePath accept queryItems w =
     (let resource = strings_ReplaceAll1 resource (CHR 0x5C) (CHR ''/'');
          url = MakeURL r container resource queryItems;
          savePath = (if savePath = [] then last (strings_Split1 resource (CHR ''/'')) else savePath);
          headers = BaseHeaders r;
          headers = (if accept \<noteq> [] then Header_Set ''Accept'' accept headers else headers);
          url = (case queryItems of
                   None \<Rightarrow> url
                 | Some q \<Rightarrow> if length q > 0 then url @ ''?'' @ Values_Encode (Some q) else url)
      in case http_NewRequest E ''GET'' url NoBody of
           Inl err \<Rightarrow> (Some err, w)
         | Inr req \<Rightarrow>
             (let req = setHeaders r req;
                  client = createHttpClient r
              in case client_Do E client req w of
                   (Inl err, w1) \<Rightarrow> (Some err, w1)
                 | (Inr resp, w1) \<Rightarrow>
                     if StatusCode resp \<ge> 300
                     then (Some (E_RestHttp (NewRestHttpError (StatusCode resp) (Status resp) [] [])), w1)
                     else
                       (case os_Create E savePath w1 of
                          (Inl err, w2) \<Rightarrow> (Some (fmt_Errorf_s ''could not create file: '' err), w2)
                        | (Inr file, w2) \<Rightarrow>
                            (case io_Copy_to_file E savePath resp w2 of
                               (Some err, w3) \<Rightarrow>
                                 (Some (fmt_Errorf_s ''could not download file: '' err),
                                  File_Close file w3)
                             | (None, w3) \<Rightarrow> (None, File_Close file w3)))))"

subsection \<open>Multipart upload\<close>

text \<open>The loops of \<open>UploadFile\<close> over the additional parameters; the error of
  \<open>WriteField\<close> is dropped.\<close>

fun UploadFile_values :: "string \<Rightarrow> string list \<Rightarrow> Writer \<Rightarrow> Writer" where
  "UploadFile_values key [] wr = wr"
| "UploadFile_values key (v # vs) wr = UploadFile_values key vs (WriteField wr key v)"

fun UploadFile_params :: "Values \<Rightarrow> Writer \<Rightarrow> Writer" where
  "UploadFile_params [] wr = wr"
| "UploadFile_params ((key, vs) # ps) wr = UploadFile_params ps (UploadFile_values key vs wr)"

definition UploadFile ::
  "Env \<Rightarrow> RestHttp \<Rightarrow> string \<Rightarrow> string \<Rightarrow> Values option \<Rightarrow> string \<Rightarrow> File \<Rightarrow> World
    \<Rightarrow> (error + string) \<times> World" where
  "UploadFile E r container resource params contentType file w =
     (let url = MakeURL r container resource None;
          writer = multipart_NewWriter E
      in case CreateFormFile E writer ''file'' (filepath_Base (fname file)) of
           Inl err \<Rightarrow> (Inl err, w)
         | Inr writer \<Rightarrow>
             (case io_Copy_to_part writer file of
                Inl err \<Rightarrow> (Inl err, w)
              | Inr writer \<Rightarrow>
                  (let writer = (case params of None \<Rightarrow> writer | Some ps \<Rightarrow> UploadFile_params ps writer)
                   in case WriterCloseErr E of
                        Some err \<Rightarrow> (Inl err, w)
                      | None \<Rightarrow>
                          (case http_NewRequest E ''POST'' url (MultipartBody writer) of
                             Inl err \<Rightarrow> (Inl err, w)
                           | Inr req \<Rightarrow>
                               (let req = req\<lparr> ReqHeader :=
                                            Header_Set ''Content-Type'' (FormDataContentType writer)
                                              (ReqHeader req) \<rparr>;
                                    req = setHeaders r req;
                                    client = createHttpClient r
                                in case client_Do E client req w of
                                     (Inl err, w') \<Rightarrow> (Inl err, w')
                                   | (Inr resp, w') \<Rightarrow>
                                       (case ioutil_ReadAll resp of
                                          Inl err \<Rightarrow> (Inl err, w')
                                        | Inr respBody \<Rightarrow> (Inr respBody, w')))))))"

text \<open>The opened file is closed on every return that follows \<open>os.Open\<close>
  (\<open>defer file.Close()\<close>); the error of \<open>writer.Close()\<close> is dropped.\<close>

definition UploadFileMP ::
  "Env \<Rightarrow> RestHttp \<Rightarrow> string \<Rightarrow> string \<Rightarrow> string \<Rightarrow> string \<Rightarrow> World
    \<Rightarrow> (error + string) \<times> World" where
  "UploadFileMP E r container srcFilePath dstName contentType w =
     (if \<not> fileExists E srcFilePath
      then (Inl (E_Other (''file not found: '' @ srcFilePath)), w)
      else
        (let dstName = (if dstName = [] then filepath_Base srcFilePath else dstName);
             contentType = (if contentType = [] then ''application/octet.stream'' else contentType);
             url = MakeURL r container [] None;
             writer = multipart_NewWriter E
         in case os_Open E srcFilePath w of
              (Inl err, w1) \<Rightarrow> (Inl err, w1)
            | (Inr file, w1) \<Rightarrow>
                (case CreateFormFile E writer ''file'' dstName of
                   Inl err \<Rightarrow> (Inl err, File_Close (fd file) w1)
                 | Inr writer \<Rightarrow>
                     (case io_Copy_to_part writer file of
                        Inl err \<Rightarrow> (Inl err, File_Close (fd file) w1)
                      | Inr writer \<Rightarrow>
                          (let contentType = FormDataContentType writer
                           in case http_NewRequest E ''POST'' url (MultipartBody writer) of
                                Inl err \<Rightarrow> (Inl err, File_Close (fd file) w1)
                              | Inr req \<Rightarrow>
                                  (let req = req\<lparr> ReqHeader :=
                                               Header_Set ''Content-Type'' contentType (ReqHeader req) \<rparr>;
                                       req = setHeaders r req;
                                       client = createHttpClient r
                                   in case client_Do E client req w1 of
                                        (Inl err, w2) \<Rightarrow> (Inl err, File_Close (fd file) w2)
                                      | (Inr resp, w2) \<Rightarrow>
                                          (case ioutil_ReadAll resp of
                                             Inl err \<Rightarrow> (Inl err, File_Close (fd file) w2)
                                           | Inr responseBody \<Rightarrow>
                                               (Inr responseBody, File_Close (fd file) w2))))))))"

text \<open>The loop of \<open>UploadFiles\<close> over the entries of \<open>srcDstMap\<close>, in the order the run
  visits them. \<open>fileCloseFuncs\<close> is the list of the descriptors its closures close. A
  failing \<open>os.Open\<close> returns at once; a failing part closes the file just opened.\<close>

fun UploadFiles_loop ::
  "Env \<Rightarrow> (string \<times> string) list \<Rightarrow> Writer \<Rightarrow> nat list \<Rightarrow> World
    \<Rightarrow> (error + (Writer \<times> nat list)) \<times> World" where
  "UploadFiles_loop E [] writer fileCloseFuncs w = (Inr (writer, fileCloseFuncs), w)"
| "UploadFiles_loop E ((srcPath, dstName) # rest) writer fileCloseFuncs w =
     (let dstName = (if dstName = [] then filepath_Base srcPath else dstName)
      in case os_Open E srcPath w of
           (Inl err, w1) \<Rightarrow> (Inl err, w1)
         | (Inr file, w1) \<Rightarrow>
             (case CreateFormFile E writer ''files'' dstName of
                Inl err \<Rightarrow> (Inl err, File_Close (fd file) w1)
              | Inr writer \<Rightarrow>
                  (case io_Copy_to_part writer file of
                     Inl err \<Rightarrow> (Inl err, File_Close (fd file) w1)
                   | Inr writer \<Rightarrow>
                       UploadFiles_loop E rest writer (fileCloseFuncs @ [fd file]) w1)))"

text \<open>Running every function of \<open>fileCloseFuncs\<close>.\<close>

fun run_fileCloseFuncs :: "nat list \<Rightarrow> World \<Rightarrow> World" where
  "run_fileCloseFuncs [] w = w"
| "run_fileCloseFuncs (d # ds) w = run_fileCloseFuncs ds (File_Close d w)"

definition UploadFiles ::
  "Env \<Rightarrow> RestHttp \<Rightarrow> string \<Rightarrow> (string \<times> string) list \<Rightarrow> string \<Rightarrow> World
    \<Rightarrow> (error + string) \<times> World" where
  "UploadFiles E r container srcDstMap contentType w =
     (let contentType = (if contentType = [] then ''application/octet.stream'' else contentType);
          url = MakeURL r container [] None;
          writer = multipart_NewWriter E
      in case UploadFiles_loop E srcDstMap writer [] w of
           (Inl err, w1) \<Rightarrow> (Inl err, w1)
         | (Inr (writer, fileCloseFuncs), w1) \<Rightarrow>
             (let contentType = FormDataContentType writer
              in case http_NewRequest E ''POST'' url (MultipartBody writer) of
                   Inl err \<Rightarrow> (Inl err, run_fileCloseFuncs fileCloseFuncs w1)
                 | Inr req \<Rightarrow>
                     (let req = req\<lparr> ReqHeader :=
                                  Header_Set ''Content-Type'' contentType (ReqHeader req) \<rparr>;
                          req = setHeaders r req;
                          client = createHttpClient r
                      in case client_Do E client req w1 of
                           (Inl err, w2) \<Rightarrow> (Inl err, run_fileCloseFuncs fileCloseFuncs w2)
                         | (Inr resp, w2) \<Rightarrow>
                             (case ioutil_ReadAll resp of
                                Inl err \<Rightarrow> (Inl err, run_fileCloseFuncs fileCloseFuncs w2)
                              | Inr responseBody \<Rightarrow> (Inr responseBody, w2)))))"

subsection \<open>Concrete worlds for running the operations\<close>

text \<open>An environment in which every library call succeeds: the transport answers every
  request with \<open>resp\<close>, every path exists and opens with the contents \<open>data\<close>, every file
  can be created and written, and the multipart boundary is \<open>xyz\<close>.\<close>

definition env_ok :: "Response \<Rightarrow> string \<Rightarrow> Env" where
  "env_ok resp d =
     \<lparr> NewRequestErr = (\<lambda>method url. None),
       RoundTrip = (\<lambda>client req. Inr resp),
       StatErr = (\<lambda>path. None),
       OpenFile = (\<lambda>path. Inr (d, None)),
       CreateErr = (\<lambda>path. None),
       WriteErr = (\<lambda>path. None),
       NewBoundary = ''xyz'',
       FormFileErr = (\<lambda>fieldname filename. None),
       WriterCloseErr = None \<rparr>"

text \<open>The same environment, except that one path does not exist.\<close>

definition env_missing :: "Response \<Rightarrow> string \<Rightarrow> string \<Rightarrow> Env" where
  "env_missing resp d missing =
     (env_ok resp d)
       \<lparr> StatErr := (\<lambda>path. if path = missing then Some (E_NotExist (''stat '' @ path)) else None),
         OpenFile := (\<lambda>path. if path = missing then Inl (E_NotExist (''open '' @ path))
                              else Inr (d, None)) \<rparr>"

definition response :: "int \<Rightarrow> string \<Rightarrow> string \<Rightarrow> Response" where
  "response code status body =
     \<lparr> StatusCode = code, Status = status, RespBody = body, RespBodyErr = None \<rparr>"

text \<open>A world with no files, no open descriptor beyond the standard three, and no request
  sent yet.\<close>

definition world0 :: World where
  "world0 = \<lparr> files = (\<lambda>path. None), open_fds = [], next_fd = 3, sent = [] \<rparr>"

section \<open>Properties\<close>

subsection \<open>Trimming\<close>

lemma takeWhile_eq_replicate: "takeWhile (\<lambda>x. x = c) s = replicate (length (takeWhile (\<lambda>x. x = c) s)) c"
  by (induction s) auto

lemma TrimLeft_decomp: "\<exists>a. s = replicate a c @ strings_TrimLeft s [c]"
proof -
  have "s = takeWhile (\<lambda>x. x = c) s @ dropWhile (\<lambda>x. x = c) s" by simp
  then have "s = replicate (length (takeWhile (\<lambda>x. x = c) s)) c @ strings_TrimLeft s [c]"
    using takeWhile_eq_replicate[of c s] by (simp add: strings_TrimLeft_def)
  then show ?thesis by blast
qed

lemma TrimRight_decomp: "\<exists>b. s = strings_TrimRight s [c] @ replicate b c"
proof -
  obtain a where "rev s = replicate a c @ strings_TrimLeft (rev s) [c]"
    using TrimLeft_decomp by blast
  then have "rev (rev s) = rev (replicate a c @ strings_TrimLeft (rev s) [c])" by simp
  then have "s = strings_TrimRight s [c] @ replicate a c"
    by (simp add: strings_TrimRight_def strings_TrimLeft_def)
  then show ?thesis by blast
qed

lemma TrimLeft_hd: "strings_TrimLeft s [c] \<noteq> [] \<Longrightarrow> hd (strings_TrimLeft s [c]) \<noteq> c"
  unfolding strings_TrimLeft_def using hd_dropWhile[of "\<lambda>x. x = c" s] by simp

lemma TrimRight_last: "strings_TrimRight s [c] \<noteq> [] \<Longrightarrow> last (strings_TrimRight s [c]) \<noteq> c"
  unfolding strings_TrimRight_def using hd_dropWhile[of "\<lambda>x. x = c" "rev s"] by (simp add: last_rev)

lemma TrimRight_hd: "strings_TrimRight s [c] \<noteq> [] \<Longrightarrow> hd s \<noteq> c \<Longrightarrow> hd (strings_TrimRight s [c]) \<noteq> c"
proof -
  assume a: "strings_TrimRight s [c] \<noteq> []" and h: "hd s \<noteq> c"
  obtain b where "s = strings_TrimRight s [c] @ replicate b c" using TrimRight_decomp by blast
  then have "hd s = hd (strings_TrimRight s [c])" using a by (metis hd_append2)
  then show ?thesis using h by simp
qed

lemma Trim_decomp: "\<exists>a b. s = replicate a c @ strings_Trim s [c] @ replicate b c"
proof -
  obtain a where 1: "s = replicate a c @ strings_TrimLeft s [c]" using TrimLeft_decomp by blast
  obtain b where 2: "strings_TrimLeft s [c] = strings_Trim s [c] @ replicate b c"
    unfolding strings_Trim_def using TrimRight_decomp by blast
  from 1 2 have "s = replicate a c @ strings_Trim s [c] @ replicate b c" by simp
  then show ?thesis by blast
qed

lemma Trim_ends: "strings_Trim s [c] \<noteq> [] \<Longrightarrow> hd (strings_Trim s [c]) \<noteq> c \<and> last (strings_Trim s [c]) \<noteq> c"
proof -
  assume a: "strings_Trim s [c] \<noteq> []"
  then have "strings_TrimLeft s [c] \<noteq> []" by (auto simp: strings_Trim_def strings_TrimRight_def)
  then have "hd (strings_TrimLeft s [c]) \<noteq> c" by (rule TrimLeft_hd)
  then show ?thesis using a TrimRight_hd[of "strings_TrimLeft s [c]" c] TrimRight_last[of "strings_TrimLeft s [c]" c]
    by (simp add: strings_Trim_def)
qed

subsection \<open>URL construction\<close>

text \<open>
  Claim C5. Without query items, \<open>MakeURL\<close> joins the base URL, the container and the
  resource with slashes: the container, when it is not empty, contributes its text without
  its leading and trailing slashes (which are all that is removed, and nothing of the
  trimmed text starts or ends with a slash); the resource is appended as it is; an empty
  resource leaves the URL ending in a slash; and the URL for a resource is the URL for the
  empty resource followed by the resource, so no slash comes after it.
\<close>

theorem MakeURL_no_query:
  "MakeURL r container resource None =
     BaseURL r @ (if container = [] then [] else ''/'' @ strings_Trim container ''/'') @ ''/'' @ resource
   \<and> (\<exists>a b. container = replicate a (CHR ''/'') @ strings_Trim container ''/'' @ replicate b (CHR ''/''))
   \<and> (strings_Trim container ''/'' \<noteq> [] \<longrightarrow>
        hd (strings_Trim container ''/'') \<noteq> CHR ''/'' \<and> last (strings_Trim container ''/'') \<noteq> CHR ''/'')
   \<and> (resource = [] \<longrightarrow> last (MakeURL r container resource None) = CHR ''/'')
   \<and> MakeURL r container resource None = MakeURL r container [] None @ resource"
proof -
  have 1: "\<And>res. MakeURL r container res None =
     BaseURL r @ (if container = [] then [] else ''/'' @ strings_Trim container ''/'') @ ''/'' @ res"
    by (simp add: MakeURL_def Let_def)
  show ?thesis using Trim_decomp[of container "CHR ''/''"] Trim_ends[of container "CHR ''/''"]
    by (simp add: 1)
qed

theorem MakeURL_no_query_witness:
  "MakeURL (NewRestHttp ''http://h/'' [] [] True False 10) ''/posts/'' [] None = ''http://h/posts/''
   \<and> strings_Trim ''/posts/'' ''/'' = ''posts''
   \<and> MakeURL (NewRestHttp ''http://h/'' [] [] True False 10) ''/posts/'' ''1/'' None = ''http://h/posts/1/''"
  using MakeURL_no_query[of "NewRestHttp ''http://h/'' [] [] True False 10" "''/posts/''" "[]"]
        MakeURL_no_query[of "NewRestHttp ''http://h/'' [] [] True False 10" "''/posts/''" "''1/''"]
  by (simp add: NewRestHttp_def strings_Trim_def strings_TrimLeft_def strings_TrimRight_def Let_def)

subsection \<open>Construction of the configuration\<close>

lemma canon_Accept: "CanonicalMIMEHeaderKey ''Accept'' = ''Accept''"
  by code_simp

lemma canon_Authorization: "CanonicalMIMEHeaderKey ''Authorization'' = ''Authorization''"
  by code_simp

lemma canon_Content_Type: "CanonicalMIMEHeaderKey ''Content-Type'' = ''Content-Type''"
  by code_simp

text \<open>
  Claim C8. \<open>NewRestHttp\<close> stores the base URL without its trailing slashes (the input is
  the stored URL followed by slashes only, and the stored URL does not end in a slash); the
  default headers hold \<open>Accept: application/json\<close>; when both the user name and the
  password are non-empty they hold \<open>Authorization\<close> with the single value \<open>Basic\<close>, a
  space, and the base64 encoding of user, colon, password; when either is empty there is no
  \<open>Authorization\<close> header.
\<close>

theorem NewRestHttp_config:
  "(\<exists>n. baseURL = BaseURL (NewRestHttp baseURL user password v d t) @ replicate n (CHR ''/''))
   \<and> (BaseURL (NewRestHttp baseURL user password v d t) \<noteq> [] \<longrightarrow>
        last (BaseURL (NewRestHttp baseURL user password v d t)) \<noteq> CHR ''/'')
   \<and> Header_Values (BaseHeaders (NewRestHttp baseURL user password v d t)) ''Accept''
        = [''application/json'']
   \<and> (user \<noteq> [] \<and> password \<noteq> [] \<longrightarrow>
        Header_Values (BaseHeaders (NewRestHttp baseURL user password v d t)) ''Authorization''
          = [''Basic '' @ base64_EncodeToString (user @ '':'' @ password)])
   \<and> (user = [] \<or> password = [] \<longrightarrow>
        Header_Values (BaseHeaders (NewRestHttp baseURL user password v d t)) ''Authorization'' = [])"
proof -
  have u: "BaseURL (NewRestHttp baseURL user password v d t) = strings_TrimRight baseURL ''/''"
    by (simp add: NewRestHttp_def Let_def)
  have h: "BaseHeaders (NewRestHttp baseURL user password v d t) =
      (if user \<noteq> [] \<and> password \<noteq> []
       then [(''Accept'', [''application/json'']),
             (''Authorization'', [''Basic '' @ base64_EncodeToString (user @ '':'' @ password)])]
       else [(''Accept'', [''application/json''])])"
    by (simp add: NewRestHttp_def Let_def Header_Set_def canon_Accept canon_Authorization)
  show ?thesis
    unfolding u h
    using TrimRight_decomp[of baseURL "CHR ''/''"] TrimRight_last[of baseURL "CHR ''/''"]
    by (auto simp: Header_Values_def Header_lookup_def canon_Accept canon_Authorization)
qed

theorem NewRestHttp_config_witness:
  "BaseURL (NewRestHttp ''http://h.com//'' ''u'' ''p'' True False 10) = ''http://h.com''
   \<and> ''u'' \<noteq> [] \<and> ''p'' \<noteq> []
   \<and> Header_Values (BaseHeaders (NewRestHttp ''http://h.com//'' ''u'' ''p'' True False 10)) ''Authorization''
        = [''Basic dTpw'']
   \<and> Header_Values (BaseHeaders (NewRestHttp ''http://h.com//'' ''u'' [] True False 10)) ''Authorization''
        = []"
  using NewRestHttp_config[of "''http://h.com//''" "''u''" "''p''" True False 10]
        NewRestHttp_config[of "''http://h.com//''" "''u''" "[]" True False 10]
  by (simp add: NewRestHttp_def strings_TrimRight_def base64_EncodeToString_def encodeStd_def Let_def)

subsection \<open>Query encoding\<close>

lemma upperhex_alnum: "i < 16 \<Longrightarrow> is_alnum (upperhex ! i)"
proof -
  have "list_all is_alnum upperhex" by code_simp
  moreover have "length upperhex = 16" by (simp add: upperhex_def)
  ultimately show "i < 16 \<Longrightarrow> is_alnum (upperhex ! i)" by (simp add: list_all_length)
qed

lemma of_char_div16: "(of_char (c::char) :: nat) div 16 < 16"
proof -
  have "(of_char c :: nat) < 16 * 16" by simp
  then show ?thesis by (rule less_mult_imp_div_less)
qed

lemma escape_byte_chars: "x \<in> set (escape_byte c) \<Longrightarrow> is_alnum x \<or> x \<in> set ''-_.~%+''"
  using upperhex_alnum[OF of_char_div16[of c]] upperhex_alnum[of "(of_char c :: nat) mod 16"]
  by (auto simp: escape_byte_def shouldEscape_def split: if_splits)

lemma QueryEscape_chars: "x \<in> set (QueryEscape s) \<Longrightarrow> is_alnum x \<or> x \<in> set ''-_.~%+''"
  using escape_byte_chars by (auto simp: QueryEscape_def)

lemma Join_append:
  "xs \<noteq> [] \<Longrightarrow> ys \<noteq> [] \<Longrightarrow> strings_Join (xs @ ys) sep = strings_Join xs sep @ sep @ strings_Join ys sep"
proof (induction xs sep rule: strings_Join.induct)
  case (1 sep) then show ?case by simp
next
  case (2 x sep) then show ?case by (cases ys) auto
next
  case (3 x y ys' sep) then show ?case by simp
qed

lemma Join_nonempty: "xs \<noteq> [] \<Longrightarrow> [] \<notin> set xs \<Longrightarrow> strings_Join xs sep \<noteq> []"
  by (induction xs sep rule: strings_Join.induct) auto

lemma Join_chars: "c \<in> set (strings_Join xs sep) \<Longrightarrow> c \<in> set sep \<or> (\<exists>x \<in> set xs. c \<in> set x)"
  by (induction xs sep rule: strings_Join.induct) auto

lemma Join_Cons: "xs \<noteq> [] \<Longrightarrow> strings_Join (x # xs) sep = x @ sep @ strings_Join xs sep"
  by (cases xs) auto

lemma Encode_values_join_onto:
  "buf \<noteq> [] \<Longrightarrow> Encode_values ke vs buf =
     (if vs = [] then buf
      else buf @ ''&'' @ strings_Join (map (\<lambda>x. ke @ ''='' @ QueryEscape x) vs) ''&'')"
proof (induction vs arbitrary: buf)
  case Nil then show ?case by simp
next
  case (Cons v vs)
  have "Encode_values ke (v # vs) buf = Encode_values ke vs (buf @ ''&'' @ ke @ ''='' @ QueryEscape v)"
    using Cons.prems by simp
  also have "\<dots> = (if vs = [] then buf @ ''&'' @ ke @ ''='' @ QueryEscape v
      else (buf @ ''&'' @ ke @ ''='' @ QueryEscape v) @ ''&'' @
            strings_Join (map (\<lambda>x. ke @ ''='' @ QueryEscape x) vs) ''&'')"
    by (rule Cons.IH) simp
  finally show ?case by (simp add: Join_Cons)
qed

lemma Encode_values_join:
  "Encode_values ke vs buf =
     (if vs = [] then buf
      else if buf = [] then strings_Join (map (\<lambda>x. ke @ ''='' @ QueryEscape x) vs) ''&''
      else buf @ ''&'' @ strings_Join (map (\<lambda>x. ke @ ''='' @ QueryEscape x) vs) ''&'')"
proof (cases vs)
  case Nil then show ?thesis by simp
next
  case (Cons v vs')
  show ?thesis
  proof (cases "buf = []")
    case False then show ?thesis using Encode_values_join_onto[OF False, of ke vs] by simp
  next
    case True
    have "Encode_values ke (v # vs') [] = Encode_values ke vs' (ke @ ''='' @ QueryEscape v)" by simp
    also have "\<dots> = (if vs' = [] then ke @ ''='' @ QueryEscape v
        else (ke @ ''='' @ QueryEscape v) @ ''&'' @
             strings_Join (map (\<lambda>x. ke @ ''='' @ QueryEscape x) vs') ''&'')"
      by (rule Encode_values_join_onto) simp
    finally show ?thesis using True Cons by (simp add: Join_Cons)
  qed
qed

lemma join_onto_assoc:
  fixes xs ys :: "string list"
  assumes "[] \<notin> set xs"
  shows "(let b1 = (if xs = [] then buf else if buf = [] then strings_Join xs sep
                    else buf @ sep @ strings_Join xs sep)
          in if ys = [] then b1 else if b1 = [] then strings_Join ys sep
             else b1 @ sep @ strings_Join ys sep)
       = (if xs @ ys = [] then buf else if buf = [] then strings_Join (xs @ ys) sep
          else buf @ sep @ strings_Join (xs @ ys) sep)"
proof (cases "xs = []")
  case True then show ?thesis by (simp add: Let_def)
next
  case x: False
  then have j: "strings_Join xs sep \<noteq> []" using assms by (simp add: Join_nonempty)
  show ?thesis
  proof (cases "ys = []")
    case True then show ?thesis using x by (simp add: Let_def)
  next
    case False
    then show ?thesis using x j Join_append[OF x False, of sep] by (simp add: Let_def)
  qed
qed

lemma Encode_keys_join:
  "Encode_keys q ks buf =
     (let items = concat (map (\<lambda>k. map (\<lambda>x. QueryEscape k @ ''='' @ QueryEscape x) (Values_lookup q k)) ks)
      in if items = [] then buf
         else if buf = [] then strings_Join items ''&''
         else buf @ ''&'' @ strings_Join items ''&'')"
proof -
  define f where "f = (\<lambda>k. map (\<lambda>x. QueryEscape k @ ''='' @ QueryEscape x) (Values_lookup q k))"
  have fne: "\<And>k. [] \<notin> set (f k)" by (auto simp: f_def)
  have ev: "\<And>k b. Encode_values (QueryEscape k) (Values_lookup q k) b =
      (if f k = [] then b else if b = [] then strings_Join (f k) ''&''
       else b @ ''&'' @ strings_Join (f k) ''&'')"
    unfolding f_def Encode_values_join[of _ "Values_lookup q _"] by simp
  have "Encode_keys q ks buf =
     (if concat (map f ks) = [] then buf
      else if buf = [] then strings_Join (concat (map f ks)) ''&''
      else buf @ ''&'' @ strings_Join (concat (map f ks)) ''&'')"
  proof (induction ks arbitrary: buf)
    case Nil then show ?case by simp
  next
    case (Cons k ks)
    have "Encode_keys q (k # ks) buf =
        Encode_keys q ks (Encode_values (QueryEscape k) (Values_lookup q k) buf)" by simp
    also have "\<dots> = (let b1 = (if f k = [] then buf else if buf = [] then strings_Join (f k) ''&''
                    else buf @ ''&'' @ strings_Join (f k) ''&'')
          in if concat (map f ks) = [] then b1 else if b1 = [] then strings_Join (concat (map f ks)) ''&''
             else b1 @ ''&'' @ strings_Join (concat (map f ks)) ''&'')"
      unfolding Cons.IH ev Let_def ..
    also have "\<dots> = (if f k @ concat (map f ks) = [] then buf
          else if buf = [] then strings_Join (f k @ concat (map f ks)) ''&''
          else buf @ ''&'' @ strings_Join (f k @ concat (map f ks)) ''&'')"
      by (rule join_onto_assoc) (rule fne)
    finally show ?case by (simp del: concat_eq_Nil_conv append_is_Nil_conv)
  qed
  then show ?thesis unfolding f_def Let_def .
qed

lemma Values_Encode_join:
  "Values_Encode (Some q) =
     strings_Join (concat (map (\<lambda>k. map (\<lambda>x. QueryEscape k @ ''='' @ QueryEscape x) (Values_lookup q k))
                               (sorted_keys q))) ''&''"
proof (cases "q = []")
  case True then show ?thesis by (simp add: Values_Encode_def sorted_keys_def)
next
  case False
  define items where "items = concat (map (\<lambda>k. map (\<lambda>x. QueryEscape k @ ''='' @ QueryEscape x) (Values_lookup q k))
                               (sorted_keys q))"
  have "Values_Encode (Some q) = (if items = [] then [] else strings_Join items ''&'')"
    using False unfolding Values_Encode_def Encode_keys_join Let_def items_def by simp
  then have "Values_Encode (Some q) = strings_Join items ''&''" by (cases "items = []") simp_all
  then show ?thesis unfolding items_def .
qed

lemma sorted_keys_props:
  "sorted (sorted_keys q) \<and> distinct (sorted_keys q) \<and> set (sorted_keys q) = dom (map_of q)"
  by (simp add: sorted_keys_def dom_map_of_conv_image_fst)

lemma sorted_keys_cong: "map_of q' = map_of q \<Longrightarrow> sorted_keys q' = sorted_keys q"
proof -
  assume a: "map_of q' = map_of q"
  note p = sorted_keys_props[of q] and p' = sorted_keys_props[of q']
  have s: "set (sorted_keys q') = set (sorted_keys q)" using a p p' by simp
  show ?thesis
  proof (rule sorted_distinct_set_unique)
    show "sorted (sorted_keys q')" using p' by blast
    show "distinct (sorted_keys q')" using p' by blast
    show "sorted (sorted_keys q)" using p by blast
    show "distinct (sorted_keys q)" using p by blast
    show "set (sorted_keys q') = set (sorted_keys q)" by (rule s)
  qed
qed

lemma Values_Encode_cong: "map_of q' = map_of q \<Longrightarrow> Values_Encode (Some q') = Values_Encode (Some q)"
proof -
  assume a: "map_of q' = map_of q"
  have k: "sorted_keys q' = sorted_keys q" using a by (rule sorted_keys_cong)
  have l: "Values_lookup q' = Values_lookup q" using a by (simp add: Values_lookup_def fun_eq_iff)
  show ?thesis unfolding Values_Encode_join k l ..
qed

lemma QueryEscape_chars_wider:
  "x \<in> set (QueryEscape s) \<Longrightarrow> is_alnum x \<or> x \<in> set ''-_.~%+=&''"
proof -
  assume "x \<in> set (QueryEscape s)"
  then have "is_alnum x \<or> x \<in> set ''-_.~%+''" by (rule QueryEscape_chars)
  then show ?thesis by fastforce
qed

lemma Values_Encode_chars:
  "c \<in> set (Values_Encode (Some q)) \<Longrightarrow> is_alnum c \<or> c \<in> set ''-_.~%+=&''"
proof -
  assume "c \<in> set (Values_Encode (Some q))"
  then have "c \<in> set ''&'' \<or> (\<exists>x \<in> set (concat (map (\<lambda>k. map (\<lambda>x. QueryEscape k @ ''='' @ QueryEscape x) (Values_lookup q k))
                               (sorted_keys q))). c \<in> set x)"
    unfolding Values_Encode_join by (rule Join_chars)
  then show ?thesis
  proof (elim disjE)
    assume "c \<in> set ''&''"
    then show ?thesis by simp
  next
    assume "\<exists>x \<in> set (concat (map (\<lambda>k. map (\<lambda>x. QueryEscape k @ ''='' @ QueryEscape x) (Values_lookup q k))
                               (sorted_keys q))). c \<in> set x"
    then obtain k v where "c \<in> set (QueryEscape k @ ''='' @ QueryEscape v)" by auto
    then have "c \<in> set (QueryEscape k) \<or> c = CHR ''='' \<or> c \<in> set (QueryEscape v)" by auto
    then show ?thesis
    proof (elim disjE)
      assume "c \<in> set (QueryEscape k)" then show ?thesis by (rule QueryEscape_chars_wider)
    next
      assume "c = CHR ''=''" then show ?thesis by simp
    next
      assume "c \<in> set (QueryEscape v)" then show ?thesis by (rule QueryEscape_chars_wider)
    qed
  qed
qed

text \<open>
  Claim C6. For a non-nil query map, \<open>MakeURL\<close> appends a question mark and the encoded
  query to the URL it builds without a query. The encoded query is the list of
  \<open>key=value\<close> items, both sides query-escaped, joined by \<open>&\<close>, the keys visited in
  ascending order, each key of the map once; it consists of unreserved characters and of
  \<open>%\<close>, \<open>+\<close>, \<open>=\<close> and \<open>&\<close> only; and two association lists that stand for the same map
  (whatever the order of their entries) give the same URL.
\<close>

theorem MakeURL_query:
  "MakeURL r container resource (Some q) =
     MakeURL r container resource None @ ''?'' @ Values_Encode (Some q)
   \<and> Values_Encode (Some q) =
       strings_Join (concat (map (\<lambda>k. map (\<lambda>x. QueryEscape k @ ''='' @ QueryEscape x) (Values_lookup q k))
                                 (sorted_keys q))) ''&''
   \<and> sorted (sorted_keys q) \<and> distinct (sorted_keys q) \<and> set (sorted_keys q) = dom (map_of q)
   \<and> (\<forall>c \<in> set (Values_Encode (Some q)). is_alnum c \<or> c \<in> set ''-_.~%+=&'')
   \<and> (\<forall>q'. map_of q' = map_of q \<longrightarrow>
         MakeURL r container resource (Some q') = MakeURL r container resource (Some q))"
proof -
  have 1: "\<And>x. MakeURL r container resource (Some x) =
     MakeURL r container resource None @ ''?'' @ Values_Encode (Some x)"
    by (simp add: MakeURL_def Let_def)
  have 2: "\<forall>q'. map_of q' = map_of q \<longrightarrow>
         MakeURL r container resource (Some q') = MakeURL r container resource (Some q)"
  proof (intro allI impI)
    fix q' :: Values
    assume "map_of q' = map_of q"
    then have "Values_Encode (Some q') = Values_Encode (Some q)" by (rule Values_Encode_cong)
    then show "MakeURL r container resource (Some q') = MakeURL r container resource (Some q)"
      by (simp only: 1)
  qed
  have 3: "\<forall>c \<in> set (Values_Encode (Some q)). is_alnum c \<or> c \<in> set ''-_.~%+=&''"
    by (intro ballI) (rule Values_Encode_chars)
  from sorted_keys_props[of q]
  have s1: "sorted (sorted_keys q)" and s2: "distinct (sorted_keys q)"
    and s3: "set (sorted_keys q) = dom (map_of q)" by blast+
  show ?thesis
    by (intro conjI) (rule 1, rule Values_Encode_join, rule s1, rule s2, rule s3, rule 3, rule 2)
qed

theorem MakeURL_query_witness:
  "MakeURL (NewRestHttp ''http://h.com'' [] [] True False 10) ''posts'' ''1''
       (Some [(''b x'', [''1&'', ''2'']), (''a'', [''z~'', ''''])])
     = ''http://h.com/posts/1?a=z~&a=&b+x=1%26&b+x=2''
   \<and> map_of [(''a'', [''z~'', '''']), (''b x'', [''1&'', ''2''])]
       = map_of [(''b x'', [''1&'', ''2'']), (''a'', [''z~'', ''''])]
   \<and> MakeURL (NewRestHttp ''http://h.com'' [] [] True False 10) ''posts'' ''1''
       (Some [(''a'', [''z~'', '''']), (''b x'', [''1&'', ''2''])])
     = ''http://h.com/posts/1?a=z~&a=&b+x=1%26&b+x=2''"
proof -
  have m: "map_of [(''a'', [''z~'', '''']), (''b x'', [''1&'', ''2''])]
       = map_of [(''b x'', [''1&'', ''2'']), (''a'', [''z~'', ''''])]"
    by (rule ext) simp
  have v: "MakeURL (NewRestHttp ''http://h.com'' [] [] True False 10) ''posts'' ''1''
       (Some [(''b x'', [''1&'', ''2'']), (''a'', [''z~'', ''''])])
     = ''http://h.com/posts/1?a=z~&a=&b+x=1%26&b+x=2''"
    by code_simp
  note t = MakeURL_query[of "NewRestHttp ''http://h.com'' [] [] True False 10" "''posts''" "''1''"
            "[(''b x'', [''1&'', ''2'']), (''a'', [''z~'', []])]"]
  note d = t[THEN conjunct2, THEN conjunct2, THEN conjunct2, THEN conjunct2, THEN conjunct2,
             THEN conjunct2, rule_format, OF m]
  show ?thesis
    by (intro conjI) (rule v, rule m, simp only: d v)
qed

subsection \<open>Header assembly\<close>

lemma Header_lookup_Set:
  "Header_lookup (Header_Set key v h) k =
     (if k = CanonicalMIMEHeaderKey key then [v] else Header_lookup h k)"
  by (simp add: Header_lookup_def Header_Set_def update_conv')

lemma Header_lookup_Add:
  "Header_lookup (Header_Add key v h) k =
     (if k = CanonicalMIMEHeaderKey key then Header_lookup h k @ [v] else Header_lookup h k)"
  by (simp add: Header_lookup_def Header_Add_def update_conv' Let_def)

lemma Header_lookup_setHeaders_values:
  "Header_lookup (setHeaders_values key vs h) k =
     (if k = CanonicalMIMEHeaderKey key then Header_lookup h k @ vs else Header_lookup h k)"
  by (induction vs arbitrary: h) (simp_all add: Header_lookup_Add)

lemma Header_lookup_setHeaders_entries:
  "Header_lookup (setHeaders_entries es h) k =
     Header_lookup h k @ concat (map snd (filter (\<lambda>e. CanonicalMIMEHeaderKey (fst e) = k) es))"
proof (induction es arbitrary: h)
  case Nil then show ?case by simp
next
  case (Cons e es)
  obtain key vs where e: "e = (key, vs)" by (cases e)
  show ?case unfolding e by (simp add: Cons.IH Header_lookup_setHeaders_values)
qed

subsection \<open>Requests handed to the transport\<close>

lemma sent_UploadFiles_loop:
  "sent (snd (UploadFiles_loop E m wr cs w)) = sent w"
proof (induction m arbitrary: wr cs w)
  case Nil then show ?case by simp
next
  case (Cons e m)
  obtain src dst where e: "e = (src, dst)" by (cases e)
  show ?case unfolding e
    by (auto simp: Let_def os_Open_def File_Close_def Cons.IH split: sum.splits prod.splits)
qed

lemma sent_run_fileCloseFuncs: "sent (run_fileCloseFuncs ds w) = sent w"
  by (induction ds arbitrary: w) (simp_all add: File_Close_def)

subsection \<open>File download\<close>

text \<open>
  Claim C3. Let \<open>http.NewRequest\<close> accept the request and the transport answer it with the
  response \<open>resp\<close>. When the status code of \<open>resp\<close> is at least 300, \<open>DownloadFile\<close>
  returns the \<open>RestHttpError\<close> that carries this status code and the status text, with an
  empty message and code, and the world differs from the one before the call by the request
  sent only: no file is created or written. When the status code is below 300, the
  destination can be created and written, and the body is read to its end, the call
  returns no error and the destination file holds exactly the bytes of the body. The
  destination is the save path, or the last slash-separated segment of the resource when
  the save path is empty.
\<close>

theorem DownloadFile_status:
  assumes nr: "\<And>m u. NewRequestErr E m u = None"
    and rt: "\<And>cl rq. RoundTrip E cl rq = Inr resp"
  shows "(StatusCode resp \<ge> 300 \<longrightarrow>
            (\<exists>req. DownloadFile E r c res sp acc q w =
               (Some (E_RestHttp \<lparr> HttpStatus = StatusCode resp, HttpReason = Status resp,
                                   Msg = [], Code = [] \<rparr>),
                w\<lparr> sent := sent w @ [req] \<rparr>)))
       \<and> (let path = (if sp = []
                       then last (strings_Split1 (strings_ReplaceAll1 res (CHR 0x5C) (CHR ''/'')) (CHR ''/''))
                       else sp)
          in StatusCode resp < 300 \<and> CreateErr E path = None \<and> WriteErr E path = None
             \<and> RespBodyErr resp = None \<longrightarrow>
               fst (DownloadFile E r c res sp acc q w) = None
               \<and> files (snd (DownloadFile E r c res sp acc q w)) path = Some (RespBody resp))"
  unfolding DownloadFile_def
  by (auto simp: Let_def http_NewRequest_def nr rt client_Do_def os_Create_def io_Copy_to_file_def
        File_Close_def NewRestHttpError_def
      split: sum.splits option.splits prod.splits)

theorem DownloadFile_status_witness:
  "DownloadFile (env_ok (response 404 ''404 Not Found'' ''gone'') [])
       (NewRestHttp ''http://h'' [] [] True False 10) ''c'' ''f.txt'' ''out'' [] None world0
     = (Some (E_RestHttp \<lparr> HttpStatus = 404, HttpReason = ''404 Not Found'', Msg = [], Code = [] \<rparr>),
        world0\<lparr> sent := [\<lparr> Method = ''GET'', URL = ''http://h/c/f.txt'',
                             ReqHeader = [(''Accept'', [''application/json''])], ReqBody = NoBody \<rparr>] \<rparr>)
   \<and> fst (DownloadFile (env_ok (response 200 ''200 OK'' ''hello'') [])
       (NewRestHttp ''http://h'' [] [] True False 10) ''c'' ''dir/f.txt'' [] [] None world0) = None
   \<and> files (snd (DownloadFile (env_ok (response 200 ''200 OK'' ''hello'') [])
       (NewRestHttp ''http://h'' [] [] True False 10) ''c'' ''dir/f.txt'' [] [] None world0)) ''f.txt''
       = Some ''hello''"
proof -
  have a: "\<And>resp d m u. NewRequestErr (env_ok resp d) m u = None" by (simp add: env_ok_def)
  have b: "\<And>resp d cl rq. RoundTrip (env_ok resp d) cl rq = Inr resp" by (simp add: env_ok_def)
  note t1 = DownloadFile_status[OF a b, of "response 404 ''404 Not Found'' ''gone''" "[]"
              "NewRestHttp ''http://h'' [] [] True False 10" "''c''" "''f.txt''" "''out''" "[]" None world0]
  note t2 = DownloadFile_status[OF a b, of "response 200 ''200 OK'' ''hello''" "[]"
              "NewRestHttp ''http://h'' [] [] True False 10" "''c''" "''dir/f.txt''" "[]" "[]" None world0]
  have p: "last (strings_Split1 (strings_ReplaceAll1 ''dir/f.txt'' (CHR 0x5C) (CHR ''/'')) (CHR ''/'')) = ''f.txt''"
    by code_simp
  have e1: "DownloadFile (env_ok (response 404 ''404 Not Found'' ''gone'') [])
       (NewRestHttp ''http://h'' [] [] True False 10) ''c'' ''f.txt'' ''out'' [] None world0
     = (Some (E_RestHttp \<lparr> HttpStatus = 404, HttpReason = ''404 Not Found'', Msg = [], Code = [] \<rparr>),
        world0\<lparr> sent := [\<lparr> Method = ''GET'', URL = ''http://h/c/f.txt'',
                             ReqHeader = [(''Accept'', [''application/json''])], ReqBody = NoBody \<rparr>] \<rparr>)"
    by (simp add: DownloadFile_def Let_def http_NewRequest_def client_Do_def env_ok_def response_def
         world0_def NewRestHttpError_def NewRestHttp_def MakeURL_def strings_TrimRight_def
         strings_Trim_def strings_TrimLeft_def
         strings_ReplaceAll1_def setHeaders_def Header_Set_def Header_Add_def Header_lookup_def
         canon_Accept createHttpClient_def)
  from t2 have e2: "fst (DownloadFile (env_ok (response 200 ''200 OK'' ''hello'') [])
       (NewRestHttp ''http://h'' [] [] True False 10) ''c'' ''dir/f.txt'' [] [] None world0) = None
   \<and> files (snd (DownloadFile (env_ok (response 200 ''200 OK'' ''hello'') [])
       (NewRestHttp ''http://h'' [] [] True False 10) ''c'' ''dir/f.txt'' [] [] None world0)) ''f.txt''
       = Some ''hello''"
    unfolding Let_def p by (simp add: response_def env_ok_def)
  show ?thesis using t1 e1 e2 by blast
qed

subsection \<open>Status codes\<close>

text \<open>
  Claim C4. Let \<open>http.NewRequest\<close> accept the request and the transport answer it with the
  response \<open>resp\<close>. \<open>HeadRequest\<close> returns the status code of \<open>resp\<close>, whatever it is.
  \<open>GetRequest\<close>, \<open>PostRequest\<close>, \<open>PutRequest\<close> and \<open>DeleteRequest\<close> return what reading the body
  gives (the whole body when the reading does not fail), whatever the status code is.
  \<open>DownloadFile\<close> returns a \<open>RestHttpError\<close> when the status code is at least 300. The three
  uploads, once their request has reached the transport, also return what reading the body
  gives.
\<close>

theorem status_not_checked:
  assumes nr: "\<And>m u. NewRequestErr E m u = None"
    and rt: "\<And>cl rq. RoundTrip E cl rq = Inr resp"
  shows "fst (HeadRequest E r c res w) = Inr (StatusCode resp)
       \<and> fst (GetRequest E r c res q acc lower w) = ioutil_ReadAll resp
       \<and> fst (PostRequest E r c res ps acc w) = ioutil_ReadAll resp
       \<and> fst (PutRequest E r c res ps acc w) = ioutil_ReadAll resp
       \<and> fst (DeleteRequest E r c res q acc w) = ioutil_ReadAll resp
       \<and> (RespBodyErr resp = None \<longrightarrow> ioutil_ReadAll resp = Inr (RespBody resp))
       \<and> (StatusCode resp \<ge> 300 \<longrightarrow>
            fst (DownloadFile E r c res sp acc q w)
              = Some (E_RestHttp (NewRestHttpError (StatusCode resp) (Status resp) [] [])))
       \<and> (sent (snd (UploadFile E r c res ps ct file w)) \<noteq> sent w \<longrightarrow>
            fst (UploadFile E r c res ps ct file w) = ioutil_ReadAll resp)
       \<and> (sent (snd (UploadFileMP E r c src dst ct w)) \<noteq> sent w \<longrightarrow>
            fst (UploadFileMP E r c src dst ct w) = ioutil_ReadAll resp)
       \<and> (sent (snd (UploadFiles E r c m ct w)) \<noteq> sent w \<longrightarrow>
            fst (UploadFiles E r c m ct w) = ioutil_ReadAll resp)"
proof -
  have h: "fst (HeadRequest E r c res w) = Inr (StatusCode resp)"
    by (simp add: HeadRequest_def Let_def http_NewRequest_def nr rt client_Do_def)
  have g: "fst (GetRequest E r c res q acc lower w) = ioutil_ReadAll resp"
    by (simp add: GetRequest_def Let_def http_NewRequest_def nr rt client_Do_def split: sum.splits)
  have po: "fst (PostRequest E r c res ps acc w) = ioutil_ReadAll resp"
    by (simp add: PostRequest_def Let_def http_NewRequest_def nr rt client_Do_def split: sum.splits)
  have pu: "fst (PutRequest E r c res ps acc w) = ioutil_ReadAll resp"
    by (simp add: PutRequest_def Let_def http_NewRequest_def nr rt client_Do_def split: sum.splits)
  have d: "fst (DeleteRequest E r c res q acc w) = ioutil_ReadAll resp"
    by (simp add: DeleteRequest_def Let_def http_NewRequest_def nr rt client_Do_def split: sum.splits)
  have ra: "RespBodyErr resp = None \<longrightarrow> ioutil_ReadAll resp = Inr (RespBody resp)"
    by (simp add: ioutil_ReadAll_def)
  have dl: "StatusCode resp \<ge> 300 \<longrightarrow>
            fst (DownloadFile E r c res sp acc q w)
              = Some (E_RestHttp (NewRestHttpError (StatusCode resp) (Status resp) [] []))"
    by (simp add: DownloadFile_def Let_def http_NewRequest_def nr rt client_Do_def split: option.splits)
  have u1: "sent (snd (UploadFile E r c res ps ct file w)) \<noteq> sent w \<longrightarrow>
            fst (UploadFile E r c res ps ct file w) = ioutil_ReadAll resp"
    by (auto simp: UploadFile_def Let_def http_NewRequest_def nr rt client_Do_def
        split: sum.splits option.splits)
  have u2: "sent (snd (UploadFileMP E r c src dst ct w)) \<noteq> sent w \<longrightarrow>
            fst (UploadFileMP E r c src dst ct w) = ioutil_ReadAll resp"
    by (auto simp: UploadFileMP_def Let_def http_NewRequest_def nr rt client_Do_def os_Open_def
          File_Close_def
        split: sum.splits option.splits prod.splits)
  have u3: "sent (snd (UploadFiles E r c m ct w)) \<noteq> sent w \<longrightarrow>
            fst (UploadFiles E r c m ct w) = ioutil_ReadAll resp"
  proof (cases "UploadFiles_loop E m (multipart_NewWriter E) [] w")
    case (Pair res1 w1)
    have s: "sent w1 = sent w" using sent_UploadFiles_loop[of E m "multipart_NewWriter E" "[]" w] Pair by simp
    show ?thesis
      by (auto simp: UploadFiles_def Let_def Pair s http_NewRequest_def nr rt client_Do_def
            sent_run_fileCloseFuncs
          split: sum.splits option.splits prod.splits)
  qed
  show ?thesis by (intro conjI) (rule h, rule g, rule po, rule pu, rule d, rule ra, rule dl, rule u1, rule u2, rule u3)
qed

theorem status_not_checked_witness:
  "fst (HeadRequest (env_ok (response 500 ''500 Internal Server Error'' ''oops'') [])
         (NewRestHttp ''http://h'' [] [] True False 10) ''c'' ''r'' world0) = Inr 500
   \<and> fst (GetRequest (env_ok (response 500 ''500 Internal Server Error'' ''oops'') [])
         (NewRestHttp ''http://h'' [] [] True False 10) ''c'' ''r'' None [] True world0) = Inr ''oops''
   \<and> fst (DownloadFile (env_ok (response 500 ''500 Internal Server Error'' ''oops'') [])
         (NewRestHttp ''http://h'' [] [] True False 10) ''c'' ''r'' ''out'' [] None world0)
       = Some (E_RestHttp \<lparr> HttpStatus = 500, HttpReason = ''500 Internal Server Error'',
                             Msg = [], Code = [] \<rparr>)"
proof -
  have a: "\<And>resp d m u. NewRequestErr (env_ok resp d) m u = None" by (simp add: env_ok_def)
  have b: "\<And>resp d cl rq. RoundTrip (env_ok resp d) cl rq = Inr resp" by (simp add: env_ok_def)
  note t = status_not_checked[OF a b, of "response 500 ''500 Internal Server Error'' ''oops''" "[]"
             "NewRestHttp ''http://h'' [] [] True False 10" "''c''" "''r''" world0 None "[]" True
             None "''out''"]
  have s: "StatusCode (response 500 ''500 Internal Server Error'' ''oops'') = 500"
      "Status (response 500 ''500 Internal Server Error'' ''oops'') = ''500 Internal Server Error''"
      "ioutil_ReadAll (response 500 ''500 Internal Server Error'' ''oops'') = Inr ''oops''"
    by (simp_all add: response_def ioutil_ReadAll_def)
  show ?thesis using t unfolding s NewRestHttpError_def by simp
qed

subsection \<open>The query of a download\<close>

text \<open>
  Claim C9. For a non-nil, non-empty query map, the URL of the request that \<open>DownloadFile\<close>
  hands to the transport is the URL without a query (built from the resource with its
  backslashes replaced), followed twice by a question mark and the encoded query: once
  from \<open>MakeURL\<close>, once from \<open>DownloadFile\<close> itself. (The request exists when
  \<open>http.NewRequest\<close> accepts that URL.)
\<close>

theorem DownloadFile_query_twice:
  assumes ne: "q \<noteq> []"
    and nr: "NewRequestErr E ''GET''
               (MakeURL r c (strings_ReplaceAll1 res (CHR 0x5C) (CHR ''/'')) None
                  @ ''?'' @ Values_Encode (Some q) @ ''?'' @ Values_Encode (Some q)) = None"
  shows "map URL (sent (snd (DownloadFile E r c res sp acc (Some q) w))) =
           map URL (sent w) @
             [MakeURL r c (strings_ReplaceAll1 res (CHR 0x5C) (CHR ''/'')) None
                @ ''?'' @ Values_Encode (Some q) @ ''?'' @ Values_Encode (Some q)]"
proof -
  have m: "MakeURL r c (strings_ReplaceAll1 res (CHR 0x5C) (CHR ''/'')) (Some q) =
      MakeURL r c (strings_ReplaceAll1 res (CHR 0x5C) (CHR ''/'')) None @ ''?'' @ Values_Encode (Some q)"
    by (simp add: MakeURL_def Let_def)
  show ?thesis
    unfolding DownloadFile_def Let_def m using ne nr
    by (auto simp: http_NewRequest_def client_Do_def os_Create_def io_Copy_to_file_def
          File_Close_def setHeaders_def
        split: sum.splits option.splits prod.splits)
qed

theorem DownloadFile_query_twice_witness:
  "[(''a'', [''1 2''])] \<noteq> []
   \<and> map URL (sent (snd (DownloadFile (env_ok (response 200 ''200 OK'' ''hello'') [])
         (NewRestHttp ''http://h'' [] [] True False 10) ''c'' ''f.txt'' ''out'' []
         (Some [(''a'', [''1 2''])]) world0)))
       = [''http://h/c/f.txt?a=1+2?a=1+2'']"
proof -
  have a: "\<And>resp d m u. NewRequestErr (env_ok resp d) m u = None" by (simp add: env_ok_def)
  have n: "[(''a'', [''1 2''])] \<noteq> ([] :: Values)" by simp
  note t = DownloadFile_query_twice[OF n a, of "response 200 ''200 OK'' ''hello''" "[]"
             "NewRestHttp ''http://h'' [] [] True False 10" "''c''" "''f.txt''" "''out''" "[]" world0]
  have u: "MakeURL (NewRestHttp ''http://h'' [] [] True False 10) ''c''
             (strings_ReplaceAll1 ''f.txt'' (CHR 0x5C) (CHR ''/'')) None = ''http://h/c/f.txt''"
    by code_simp
  have v: "Values_Encode (Some [(''a'', [''1 2''])]) = ''a=1+2''" by code_simp
  show ?thesis using t unfolding u v by (simp add: world0_def)
qed

subsection \<open>Upload of one file by path\<close>

lemma filepath_Base_nonempty: "filepath_Base p \<noteq> []"
  by (simp add: filepath_Base_def Let_def)

text \<open>
  Claim C7. When \<open>os.Stat\<close> reports that the source path does not exist, \<open>UploadFileMP\<close>
  returns the error \<open>file not found:\<close> followed by the path and leaves the world as it was:
  no file is opened and no request is sent. An empty destination name stands for the base
  name of the source path: the call behaves as with that name given, and when the source
  exists and opens and the request can be built, the request sent carries one file part
  named by the base name, with the contents of the source.
\<close>

theorem UploadFileMP_source:
  "(os_IsNotExist (StatErr E src) \<longrightarrow>
      UploadFileMP E r c src dst ct w = (Inl (E_Other (''file not found: '' @ src)), w))
   \<and> UploadFileMP E r c src [] ct w = UploadFileMP E r c src (filepath_Base src) ct w
   \<and> (\<not> os_IsNotExist (StatErr E src) \<and> OpenFile E src = Inr (d, None)
        \<and> FormFileErr E ''file'' (filepath_Base src) = None
        \<and> NewRequestErr E ''POST'' (MakeURL r c [] None) = None \<longrightarrow>
        (\<exists>req. sent (snd (UploadFileMP E r c src [] ct w)) = sent w @ [req]
           \<and> ReqBody req = MultipartBody \<lparr> boundary = NewBoundary E,
                                           parts = [FormFile ''file'' (filepath_Base src) d] \<rparr>))"
proof -
  have 1: "os_IsNotExist (StatErr E src) \<longrightarrow>
      UploadFileMP E r c src dst ct w = (Inl (E_Other (''file not found: '' @ src)), w)"
    by (simp add: UploadFileMP_def fileExists_def)
  have 2: "UploadFileMP E r c src [] ct w = UploadFileMP E r c src (filepath_Base src) ct w"
    by (simp add: UploadFileMP_def filepath_Base_nonempty)
  have 3: "\<not> os_IsNotExist (StatErr E src) \<and> OpenFile E src = Inr (d, None)
        \<and> FormFileErr E ''file'' (filepath_Base src) = None
        \<and> NewRequestErr E ''POST'' (MakeURL r c [] None) = None \<longrightarrow>
        (\<exists>req. sent (snd (UploadFileMP E r c src [] ct w)) = sent w @ [req]
           \<and> ReqBody req = MultipartBody \<lparr> boundary = NewBoundary E,
                                           parts = [FormFile ''file'' (filepath_Base src) d] \<rparr>)"
    by (auto simp: UploadFileMP_def fileExists_def Let_def os_Open_def CreateFormFile_def
          multipart_NewWriter_def io_Copy_to_part_def http_NewRequest_def client_Do_def
          File_Close_def setHeaders_def
        split: sum.splits prod.splits)
  show ?thesis by (intro conjI) (rule 1, rule 2, rule 3)
qed

theorem UploadFileMP_source_witness:
  "UploadFileMP (env_missing (response 200 ''200 OK'' ''done'') ''data'' ''/tmp/a.bin'')
       (NewRestHttp ''http://h'' [] [] True False 10) ''c'' ''/tmp/a.bin'' [] [] world0
     = (Inl (E_Other ''file not found: /tmp/a.bin''), world0)
   \<and> map ReqBody (sent (snd (UploadFileMP (env_ok (response 200 ''200 OK'' ''done'') ''data'')
       (NewRestHttp ''http://h'' [] [] True False 10) ''c'' ''/tmp/a.bin'' [] [] world0)))
     = [MultipartBody \<lparr> boundary = ''xyz'', parts = [FormFile ''file'' ''a.bin'' ''data''] \<rparr>]"
proof -
  note t1 = UploadFileMP_source[of "env_missing (response 200 ''200 OK'' ''done'') ''data'' ''/tmp/a.bin''"
      "''/tmp/a.bin''" "NewRestHttp ''http://h'' [] [] True False 10" "''c''" "[]" "[]" world0]
  note t2 = UploadFileMP_source[of "env_ok (response 200 ''200 OK'' ''done'') ''data''"
      "''/tmp/a.bin''" "NewRestHttp ''http://h'' [] [] True False 10" "''c''" "[]" "[]" world0 "''data''"]
  have m: "os_IsNotExist (StatErr (env_missing (response 200 ''200 OK'' ''done'') ''data'' ''/tmp/a.bin'') ''/tmp/a.bin'')"
    by (simp add: env_missing_def env_ok_def os_IsNotExist_def)
  have e1: "UploadFileMP (env_missing (response 200 ''200 OK'' ''done'') ''data'' ''/tmp/a.bin'')
       (NewRestHttp ''http://h'' [] [] True False 10) ''c'' ''/tmp/a.bin'' [] [] world0
     = (Inl (E_Other ''file not found: /tmp/a.bin''), world0)"
    using t1 m by simp
  have b: "filepath_Base ''/tmp/a.bin'' = ''a.bin''" by code_simp
  have h: "\<not> os_IsNotExist (StatErr (env_ok (response 200 ''200 OK'' ''done'') ''data'') ''/tmp/a.bin'')"
      "OpenFile (env_ok (response 200 ''200 OK'' ''done'') ''data'') ''/tmp/a.bin'' = Inr (''data'', None)"
      "FormFileErr (env_ok (response 200 ''200 OK'' ''done'') ''data'') ''file'' ''a.bin'' = None"
      "NewRequestErr (env_ok (response 200 ''200 OK'' ''done'') ''data'') ''POST''
         (MakeURL (NewRestHttp ''http://h'' [] [] True False 10) ''c'' [] None) = None"
      "NewBoundary (env_ok (response 200 ''200 OK'' ''done'') ''data'') = ''xyz''"
    by (simp_all add: env_ok_def os_IsNotExist_def)
  from t2[THEN conjunct2, THEN conjunct2] have "\<exists>req. sent (snd (UploadFileMP (env_ok (response 200 ''200 OK'' ''done'') ''data'')
       (NewRestHttp ''http://h'' [] [] True False 10) ''c'' ''/tmp/a.bin'' [] [] world0)) = sent world0 @ [req]
           \<and> ReqBody req = MultipartBody \<lparr> boundary = ''xyz'', parts = [FormFile ''file'' ''a.bin'' ''data''] \<rparr>"
    unfolding b using h by simp
  then have e2: "map ReqBody (sent (snd (UploadFileMP (env_ok (response 200 ''200 OK'' ''done'') ''data'')
       (NewRestHttp ''http://h'' [] [] True False 10) ''c'' ''/tmp/a.bin'' [] [] world0)))
     = [MultipartBody \<lparr> boundary = ''xyz'', parts = [FormFile ''file'' ''a.bin'' ''data''] \<rparr>]"
    by (auto simp: world0_def)
  show ?thesis using e1 e2 by (rule conjI)
qed

subsection \<open>The content type of an upload\<close>

lemma Header_Get_setHeaders_entries_Set:
  "Header_Get (setHeaders_entries es (Header_Set key v h)) key = v"
  by (simp add: Header_Get_def Header_Values_def Header_lookup_setHeaders_entries Header_lookup_Set)

lemma FormDataContentType_cong:
  "boundary wr = boundary wr' \<Longrightarrow> FormDataContentType wr = FormDataContentType wr'"
  by (simp add: FormDataContentType_def)

lemma boundary_UploadFile_values: "boundary (UploadFile_values key vs wr) = boundary wr"
  by (induction vs arbitrary: wr) (simp_all add: WriteField_def)

lemma boundary_UploadFile_params: "boundary (UploadFile_params ps wr) = boundary wr"
proof (induction ps arbitrary: wr)
  case Nil then show ?case by simp
next
  case (Cons p ps)
  obtain key vs where p: "p = (key, vs)" by (cases p)
  show ?case unfolding p by (simp add: Cons.IH boundary_UploadFile_values)
qed

lemma boundary_CreateFormFile: "CreateFormFile E wr f n = Inr wr' \<Longrightarrow> boundary wr' = boundary wr"
  by (auto simp: CreateFormFile_def split: option.splits)

lemma boundary_io_Copy_to_part: "io_Copy_to_part wr fl = Inr wr' \<Longrightarrow> boundary wr' = boundary wr"
  by (auto simp: io_Copy_to_part_def split: option.splits)

lemma UploadFile_request:
  "sent (snd (UploadFile E r c res ps ct fl w)) = sent w
   \<or> (\<exists>req. sent (snd (UploadFile E r c res ps ct fl w)) = sent w @ [req]
         \<and> Header_Get (ReqHeader req) ''Content-Type'' = FormDataContentType (multipart_NewWriter E))"
proof (cases "CreateFormFile E (multipart_NewWriter E) ''file'' (filepath_Base (fname fl))")
  case (Inl e) then show ?thesis by (simp add: UploadFile_def Let_def)
next
  case (Inr wr1)
  note c1 = Inr
  show ?thesis
  proof (cases "io_Copy_to_part wr1 fl")
    case (Inl e) then show ?thesis using c1 by (simp add: UploadFile_def Let_def)
  next
    case (Inr wr2)
    have b2: "boundary wr2 = boundary (multipart_NewWriter E)"
      using boundary_CreateFormFile[OF c1] boundary_io_Copy_to_part[OF Inr] by simp
    have ct2: "FormDataContentType wr2 = FormDataContentType (multipart_NewWriter E)"
      using b2 by (rule FormDataContentType_cong)
    have ct3: "\<And>x. FormDataContentType (UploadFile_params x wr2) = FormDataContentType (multipart_NewWriter E)"
      by (rule FormDataContentType_cong) (simp add: boundary_UploadFile_params b2)
    show ?thesis
      using c1 Inr
      by (auto simp: UploadFile_def Let_def http_NewRequest_def client_Do_def setHeaders_def
            Header_Get_setHeaders_entries_Set ct2 ct3
          split: sum.splits option.splits prod.splits)
  qed
qed

lemma UploadFileMP_request:
  "sent (snd (UploadFileMP E r c src dst ct w)) = sent w
   \<or> (\<exists>req. sent (snd (UploadFileMP E r c src dst ct w)) = sent w @ [req]
         \<and> Header_Get (ReqHeader req) ''Content-Type'' = FormDataContentType (multipart_NewWriter E))"
proof (cases "fileExists E src")
  case False then show ?thesis by (simp add: UploadFileMP_def)
next
  case True
  note ex = True
  define dn where "dn = (if dst = [] then filepath_Base src else dst)"
  show ?thesis
  proof (cases "OpenFile E src")
    case (Inl e) then show ?thesis using ex by (simp add: UploadFileMP_def Let_def os_Open_def)
  next
    case (Inr dr)
    obtain d rerr where dr: "dr = (d, rerr)" by (cases dr)
    define fl where "fl = \<lparr> fd = next_fd w, fname = src, fdata = d, fread_err = rerr \<rparr>"
    define w1 where "w1 = w\<lparr> open_fds := open_fds w @ [next_fd w], next_fd := Suc (next_fd w) \<rparr>"
    have op: "os_Open E src w = (Inr fl, w1)"
      by (simp add: os_Open_def Inr dr fl_def w1_def)
    have s1: "sent w1 = sent w" by (simp add: w1_def)
    show ?thesis
    proof (cases "CreateFormFile E (multipart_NewWriter E) ''file'' dn")
      case (Inl e)
      then show ?thesis using ex op s1
        by (simp add: UploadFileMP_def Let_def dn_def[symmetric] File_Close_def)
    next
      case (Inr wr1)
      note c1 = Inr
      show ?thesis
      proof (cases "io_Copy_to_part wr1 fl")
        case (Inl e)
        then show ?thesis using ex op s1 c1
          by (simp add: UploadFileMP_def Let_def dn_def[symmetric] File_Close_def)
      next
        case (Inr wr2)
        have "boundary wr2 = boundary (multipart_NewWriter E)"
          using boundary_CreateFormFile[OF c1] boundary_io_Copy_to_part[OF Inr] by simp
        then have ct2: "FormDataContentType wr2 = FormDataContentType (multipart_NewWriter E)"
          by (rule FormDataContentType_cong)
        show ?thesis
          using ex op s1 c1 Inr
          unfolding UploadFileMP_def Let_def dn_def[symmetric]
          by (auto simp: http_NewRequest_def client_Do_def File_Close_def setHeaders_def
                Header_Get_setHeaders_entries_Set ct2
              split: sum.splits option.splits prod.splits)
      qed
    qed
  qed
qed

text \<open>
  Claim C10. \<open>UploadFile\<close> and \<open>UploadFileMP\<close> do not depend on their \<open>contentType\<close>
  argument: any two values give the same result and the same world. Each call sends at
  most one request, and the \<open>Content-Type\<close> of that request is the content type the
  multipart writer derives from its boundary.
\<close>

theorem Upload_content_type:
  "UploadFile E r c res ps ct fl w = UploadFile E r c res ps ct' fl w
   \<and> UploadFileMP E r c src dst ct w = UploadFileMP E r c src dst ct' w
   \<and> (sent (snd (UploadFile E r c res ps ct fl w)) = sent w
       \<or> (\<exists>req. sent (snd (UploadFile E r c res ps ct fl w)) = sent w @ [req]
             \<and> Header_Get (ReqHeader req) ''Content-Type''
                 = FormDataContentType (multipart_NewWriter E)))
   \<and> (sent (snd (UploadFileMP E r c src dst ct w)) = sent w
       \<or> (\<exists>req. sent (snd (UploadFileMP E r c src dst ct w)) = sent w @ [req]
             \<and> Header_Get (ReqHeader req) ''Content-Type''
                 = FormDataContentType (multipart_NewWriter E)))"
proof -
  have 1: "UploadFile E r c res ps ct fl w = UploadFile E r c res ps ct' fl w"
    by (simp add: UploadFile_def)
  have 2: "UploadFileMP E r c src dst ct w = UploadFileMP E r c src dst ct' w"
    by (simp add: UploadFileMP_def Let_def)
  show ?thesis by (intro conjI) (rule 1, rule 2, rule UploadFile_request, rule UploadFileMP_request)
qed


theorem Upload_content_type_witness:
  "map (\<lambda>rq. Header_Get (ReqHeader rq) ''Content-Type'')
       (sent (snd (UploadFile (env_ok (response 200 ''200 OK'' ''done'') ''data'')
          (NewRestHttp ''http://h'' [] [] True False 10) ''c'' ''r'' (Some [(''t'', [''1''])])
          ''image/jpeg'' \<lparr> fd = 7, fname = ''./up.jpg'', fdata = ''JPG'', fread_err = None \<rparr> world0)))
     = [''multipart/form-data; boundary=xyz'']
   \<and> map (\<lambda>rq. Header_Get (ReqHeader rq) ''Content-Type'')
       (sent (snd (UploadFileMP (env_ok (response 200 ''200 OK'' ''done'') ''data'')
          (NewRestHttp ''http://h'' [] [] True False 10) ''c'' ''/tmp/a.bin'' [] ''image/jpeg'' world0)))
     = [''multipart/form-data; boundary=xyz'']"
proof -
  note t = Upload_content_type[of "env_ok (response 200 ''200 OK'' ''done'') ''data''"
      "NewRestHttp ''http://h'' [] [] True False 10" "''c''" "''r''" "Some [(''t'', [''1''])]"
      "''image/jpeg''" "\<lparr> fd = 7, fname = ''./up.jpg'', fdata = ''JPG'', fread_err = None \<rparr>" world0
      "[]" "''/tmp/a.bin''" "[]"]
  have n1: "length (sent (snd (UploadFile (env_ok (response 200 ''200 OK'' ''done'') ''data'')
          (NewRestHttp ''http://h'' [] [] True False 10) ''c'' ''r'' (Some [(''t'', [''1''])])
          ''image/jpeg'' \<lparr> fd = 7, fname = ''./up.jpg'', fdata = ''JPG'', fread_err = None \<rparr> world0))) = 1"
    by code_simp
  have n2: "length (sent (snd (UploadFileMP (env_ok (response 200 ''200 OK'' ''done'') ''data'')
          (NewRestHttp ''http://h'' [] [] True False 10) ''c'' ''/tmp/a.bin'' [] ''image/jpeg'' world0))) = 1"
    by code_simp
  have c: "FormDataContentType (multipart_NewWriter (env_ok (response 200 ''200 OK'' ''done'') ''data''))
      = ''multipart/form-data; boundary=xyz''"
    by code_simp
  have s0: "sent world0 = []" by (simp add: world0_def)
  from t[THEN conjunct2, THEN conjunct2, THEN conjunct1] n1
  have e1: "map (\<lambda>rq. Header_Get (ReqHeader rq) ''Content-Type'')
       (sent (snd (UploadFile (env_ok (response 200 ''200 OK'' ''done'') ''data'')
          (NewRestHttp ''http://h'' [] [] True False 10) ''c'' ''r'' (Some [(''t'', [''1''])])
          ''image/jpeg'' \<lparr> fd = 7, fname = ''./up.jpg'', fdata = ''JPG'', fread_err = None \<rparr> world0)))
     = [''multipart/form-data; boundary=xyz'']"
    unfolding c s0 by auto
  from t[THEN conjunct2, THEN conjunct2, THEN conjunct2] n2
  have e2: "map (\<lambda>rq. Header_Get (ReqHeader rq) ''Content-Type'')
       (sent (snd (UploadFileMP (env_ok (response 200 ''200 OK'' ''done'') ''data'')
          (NewRestHttp ''http://h'' [] [] True False 10) ''c'' ''/tmp/a.bin'' [] ''image/jpeg'' world0)))
     = [''multipart/form-data; boundary=xyz'']"
    unfolding c s0 by auto
  show ?thesis using e1 e2 by (rule conjI)
qed

subsection \<open>Upload of several files\<close>

text \<open>
  Claim C1, run on two inputs. With the entries \<open>a\<close> and \<open>b\<close> visited in this order and
  \<open>b\<close> missing, \<open>UploadFiles\<close> returns the error of \<open>os.Open\<close> and sends no request, and
  the descriptor opened for \<open>a\<close> is still open when it returns. With the single entry
  \<open>a\<close> and every step succeeding, it returns the response body, and the descriptor
  opened for \<open>a\<close> is still open when it returns.
\<close>

theorem UploadFiles_open_fds:
  "fst (UploadFiles (env_missing (response 200 ''200 OK'' ''done'') ''data'' ''b'')
          (NewRestHttp ''http://h'' [] [] True False 10) ''c'' [(''a'', ''x''), (''b'', [])] [] world0)
     = Inl (E_NotExist ''open b'')
   \<and> sent (snd (UploadFiles (env_missing (response 200 ''200 OK'' ''done'') ''data'' ''b'')
          (NewRestHttp ''http://h'' [] [] True False 10) ''c'' [(''a'', ''x''), (''b'', [])] [] world0))
     = []
   \<and> open_fds (snd (UploadFiles (env_missing (response 200 ''200 OK'' ''done'') ''data'' ''b'')
          (NewRestHttp ''http://h'' [] [] True False 10) ''c'' [(''a'', ''x''), (''b'', [])] [] world0))
     = [3]
   \<and> fst (UploadFiles (env_ok (response 200 ''200 OK'' ''done'') ''data'')
          (NewRestHttp ''http://h'' [] [] True False 10) ''c'' [(''a'', ''x'')] [] world0)
     = Inr ''done''
   \<and> open_fds (snd (UploadFiles (env_ok (response 200 ''200 OK'' ''done'') ''data'')
          (NewRestHttp ''http://h'' [] [] True False 10) ''c'' [(''a'', ''x'')] [] world0))
     = [3]"
  by code_simp

subsection \<open>The accept argument\<close>

text \<open>
  Claim C2, for \<open>DownloadFile\<close>. The call does not depend on its \<open>accept\<close> argument: any
  value gives the result and the world of the empty value. Run with the explicit value
  \<open>text/plain\<close> on a configuration made by \<open>NewRestHttp\<close>, the request sent has the
  \<open>Accept\<close> values \<open>application/json\<close> only, where \<open>GetRequest\<close> on the same input sends
  \<open>text/plain\<close> followed by \<open>application/json\<close>.
\<close>

theorem DownloadFile_accept_dropped:
  "DownloadFile E r c res sp acc q w = DownloadFile E r c res sp [] q w
   \<and> map (\<lambda>rq. Header_Values (ReqHeader rq) ''Accept'')
        (sent (snd (DownloadFile (env_ok (response 200 ''200 OK'' ''hello'') [])
           (NewRestHttp ''http://h'' [] [] True False 10) ''c'' ''f.txt'' ''out'' ''text/plain'' None world0)))
     = [[''application/json'']]
   \<and> map (\<lambda>rq. Header_Values (ReqHeader rq) ''Accept'')
        (sent (snd (GetRequest (env_ok (response 200 ''200 OK'' ''hello'') [])
           (NewRestHttp ''http://h'' [] [] True False 10) ''c'' ''f.txt'' None ''text/plain'' True world0)))
     = [[''text/plain'', ''application/json'']]"
proof -
  have 1: "DownloadFile E r c res sp acc q w = DownloadFile E r c res sp [] q w"
    by (simp add: DownloadFile_def Let_def)
  have 2: "map (\<lambda>rq. Header_Values (ReqHeader rq) ''Accept'')
        (sent (snd (DownloadFile (env_ok (response 200 ''200 OK'' ''hello'') [])
           (NewRestHttp ''http://h'' [] [] True False 10) ''c'' ''f.txt'' ''out'' ''text/plain'' None world0)))
     = [[''application/json'']]"
    by code_simp
  have 3: "map (\<lambda>rq. Header_Values (ReqHeader rq) ''Accept'')
        (sent (snd (GetRequest (env_ok (response 200 ''200 OK'' ''hello'') [])
           (NewRestHttp ''http://h'' [] [] True False 10) ''c'' ''f.txt'' None ''text/plain'' True world0)))
     = [[''text/plain'', ''application/json'']]"
    by code_simp
  show ?thesis by (intro conjI) (rule 1, rule 2, rule 3)
qed

text \<open>
  The four verb methods that take an accept argument. When the argument is not empty and
  \<open>http.NewRequest\<close> accepts the request, the \<open>Accept\<close> values of the request sent are
  the explicit value followed by the values the default headers hold under \<open>Accept\<close>.
\<close>

theorem verbs_accept:
  assumes acc: "acc \<noteq> []"
    and nr: "\<And>m u. NewRequestErr E m u = None"
  shows "(\<exists>req. sent (snd (GetRequest E r c res q acc lower w)) = sent w @ [req]
            \<and> Header_Values (ReqHeader req) ''Accept''
                = acc # concat (map snd (filter (\<lambda>e. CanonicalMIMEHeaderKey (fst e) = ''Accept'')
                                           (BaseHeaders r))))
       \<and> (\<exists>req. sent (snd (PostRequest E r c res ps acc w)) = sent w @ [req]
            \<and> Header_Values (ReqHeader req) ''Accept''
                = acc # concat (map snd (filter (\<lambda>e. CanonicalMIMEHeaderKey (fst e) = ''Accept'')
                                           (BaseHeaders r))))
       \<and> (\<exists>req. sent (snd (PutRequest E r c res ps acc w)) = sent w @ [req]
            \<and> Header_Values (ReqHeader req) ''Accept''
                = acc # concat (map snd (filter (\<lambda>e. CanonicalMIMEHeaderKey (fst e) = ''Accept'')
                                           (BaseHeaders r))))
       \<and> (\<exists>req. sent (snd (DeleteRequest E r c res q acc w)) = sent w @ [req]
            \<and> Header_Values (ReqHeader req) ''Accept''
                = acc # concat (map snd (filter (\<lambda>e. CanonicalMIMEHeaderKey (fst e) = ''Accept'')
                                           (BaseHeaders r))))"
proof -
  have g: "\<exists>req. sent (snd (GetRequest E r c res q acc lower w)) = sent w @ [req]
            \<and> Header_Values (ReqHeader req) ''Accept''
                = acc # concat (map snd (filter (\<lambda>e. CanonicalMIMEHeaderKey (fst e) = ''Accept'')
                                           (BaseHeaders r)))"
    using acc
    by (auto simp: GetRequest_def Let_def http_NewRequest_def nr client_Do_def setHeaders_def
          Header_Values_def Header_lookup_setHeaders_entries Header_lookup_Set canon_Accept
        split: sum.splits prod.splits)
  have po: "\<exists>req. sent (snd (PostRequest E r c res ps acc w)) = sent w @ [req]
            \<and> Header_Values (ReqHeader req) ''Accept''
                = acc # concat (map snd (filter (\<lambda>e. CanonicalMIMEHeaderKey (fst e) = ''Accept'')
                                           (BaseHeaders r)))"
    using acc
    by (auto simp: PostRequest_def Let_def http_NewRequest_def nr client_Do_def setHeaders_def
          Header_Values_def Header_lookup_setHeaders_entries Header_lookup_Set canon_Accept
        split: sum.splits prod.splits)
  have pu: "\<exists>req. sent (snd (PutRequest E r c res ps acc w)) = sent w @ [req]
            \<and> Header_Values (ReqHeader req) ''Accept''
                = acc # concat (map snd (filter (\<lambda>e. CanonicalMIMEHeaderKey (fst e) = ''Accept'')
                                           (BaseHeaders r)))"
    using acc
    by (auto simp: PutRequest_def Let_def http_NewRequest_def nr client_Do_def setHeaders_def
          Header_Values_def Header_lookup_setHeaders_entries Header_lookup_Set canon_Accept
        split: sum.splits prod.splits)
  have d: "\<exists>req. sent (snd (DeleteRequest E r c res q acc w)) = sent w @ [req]
            \<and> Header_Values (ReqHeader req) ''Accept''
                = acc # concat (map snd (filter (\<lambda>e. CanonicalMIMEHeaderKey (fst e) = ''Accept'')
                                           (BaseHeaders r)))"
    using acc
    by (auto simp: DeleteRequest_def Let_def http_NewRequest_def nr client_Do_def setHeaders_def
          Header_Values_def Header_lookup_setHeaders_entries Header_lookup_Set canon_Accept
        split: sum.splits prod.splits)
  show ?thesis by (intro conjI) (rule g, rule po, rule pu, rule d)
qed


theorem verbs_accept_witness:
  "''text/plain'' \<noteq> []
   \<and> map (\<lambda>rq. Header_Values (ReqHeader rq) ''Accept'')
        (sent (snd (PostRequest (env_ok (response 200 ''200 OK'' ''hello'') [])
           (NewRestHttp ''http://h'' ''u'' ''p'' True False 10) ''c'' ''r'' None ''text/plain'' world0)))
     = [[''text/plain'', ''application/json'']]"
proof -
  have a: "\<And>m u. NewRequestErr (env_ok (response 200 ''200 OK'' ''hello'') []) m u = None"
    by (simp add: env_ok_def)
  have n: "''text/plain'' \<noteq> ([] :: string)" by simp
  note t0 = verbs_accept[OF n a]
  note t1 = t0[where r = "NewRestHttp ''http://h'' ''u'' ''p'' True False 10" and c = "''c''"
               and res = "''r''" and w = world0]
  note t = t1[where ps = None]
  have f: "concat (map snd (filter (\<lambda>e. CanonicalMIMEHeaderKey (fst e) = ''Accept'')
             (BaseHeaders (NewRestHttp ''http://h'' ''u'' ''p'' True False 10)))) = [''application/json'']"
    by (simp add: NewRestHttp_def Let_def Header_Set_def canon_Accept canon_Authorization)
  have s0: "sent world0 = []" by (simp add: world0_def)
  from t[THEN conjunct2, THEN conjunct1]
  have "map (\<lambda>rq. Header_Values (ReqHeader rq) ''Accept'')
        (sent (snd (PostRequest (env_ok (response 200 ''200 OK'' ''hello'') [])
           (NewRestHttp ''http://h'' ''u'' ''p'' True False 10) ''c'' ''r'' None ''text/plain'' world0)))
     = [[''text/plain'', ''application/json'']]"
    unfolding f s0 by auto
  then show ?thesis using n by simp
qed

end
